theory Spec2Isabelle
  imports Complex_Main
begin

section \<open>Values of the host language\<close>

text \<open>
  A request body is whatever \<open>express.json()\<close> parsed, so the payload handed to the
  parsing functions is an arbitrary JSON value. Reading a missing property gives
  \<open>undefined\<close>, which is therefore a value of the model too. An object is the list of its
  members in the order of lookup.

  A \<open>number\<close> is an IEEE-754 double: a finite value, which is a rational, one of the
  two infinities, or NaN. Negative zero is not told apart from zero; the source never
  divides by a value that can be zero, which is where the two differ. The doubles
  among the rationals are the values of \<open>fl\<close> below, so that a number written 0.1
  is \<open>fl (1 / 10)\<close>; the operations are defined on every finite value and round
  their result.
\<close>

datatype jsnum = NaN | PInf | NInf | Fin rat

text \<open>
  Rounding a rational to the nearest double, a tie to the even significand. The unit of
  the last place of \<open>x\<close> is \<open>2\<close> to the power \<open>max e (-1022) - 52\<close>, where
  \<open>2 ^ e \<le> \<bar>x\<bar> < 2 ^ (e + 1)\<close>; a result of magnitude \<open>2 ^ 1024\<close> is an infinity.
\<close>

definition pow2 :: "int \<Rightarrow> rat" where
  "pow2 k = (if 0 \<le> k then 2 ^ nat k else 1 / 2 ^ nat (- k))"

text \<open>The same power by repeated squaring, for evaluation.\<close>

function pow2p :: "int \<Rightarrow> rat" where
  "pow2p k = (if k \<le> 0 then 1
              else if even k then (pow2p (k div 2)) ^ 2 else 2 * (pow2p (k div 2)) ^ 2)"
  by pat_completeness auto
termination
  by (relation "measure nat") auto

declare pow2p.simps [simp del]

function bit_length :: "int \<Rightarrow> int" where
  "bit_length a = (if a \<le> 0 then 0 else 1 + bit_length (a div 2))"
  by pat_completeness auto
termination
  by (relation "measure nat") auto

declare bit_length.simps [simp del]

definition ilog2 :: "rat \<Rightarrow> int" where
  "ilog2 x =
     (let (a, b) = quotient_of x; k = bit_length a - bit_length b
      in if pow2 k \<le> x then k else k - 1)"

definition round_half_even :: "rat \<Rightarrow> int" where
  "round_half_even y =
     (let f = \<lfloor>y\<rfloor>; d = y - of_int f
      in if d < 1 / 2 then f else if 1 / 2 < d then f + 1 else if even f then f else f + 1)"

definition fl :: "rat \<Rightarrow> jsnum" where
  "fl x =
     (if x = 0 then Fin 0
      else let e = ilog2 \<bar>x\<bar>;
               q = max e (- 1022) - 52;
               r = of_int (round_half_even (x / pow2 q)) * pow2 q
           in if pow2 1024 \<le> \<bar>r\<bar> then (if 0 < x then PInf else NInf) else Fin r)"

text \<open>The operators \<open>+\<close>, \<open>-\<close>, \<open>*\<close> and \<open>/\<close> on numbers.\<close>

fun js_add :: "jsnum \<Rightarrow> jsnum \<Rightarrow> jsnum" where
  "js_add (Fin a) (Fin b) = fl (a + b)"
| "js_add NaN y = NaN"
| "js_add x NaN = NaN"
| "js_add PInf NInf = NaN"
| "js_add NInf PInf = NaN"
| "js_add PInf y = PInf"
| "js_add x PInf = PInf"
| "js_add NInf y = NInf"
| "js_add x NInf = NInf"

fun js_neg :: "jsnum \<Rightarrow> jsnum" where
  "js_neg (Fin a) = Fin (- a)"
| "js_neg PInf = NInf"
| "js_neg NInf = PInf"
| "js_neg NaN = NaN"


text \<open>An infinity with the sign of a finite factor or divisor (zero counts as positive).\<close>

definition signed :: "jsnum \<Rightarrow> rat \<Rightarrow> jsnum" where
  "signed i a = (if 0 \<le> a then i else js_neg i)"

fun js_mul :: "jsnum \<Rightarrow> jsnum \<Rightarrow> jsnum" where
  "js_mul (Fin a) (Fin b) = fl (a * b)"
| "js_mul NaN y = NaN"
| "js_mul x NaN = NaN"
| "js_mul (Fin a) y = (if a = 0 then NaN else signed y a)"
| "js_mul x (Fin b) = (if b = 0 then NaN else signed x b)"
| "js_mul PInf y = y"
| "js_mul NInf y = js_neg y"

fun js_div :: "jsnum \<Rightarrow> jsnum \<Rightarrow> jsnum" where
  "js_div (Fin a) (Fin b) =
     (if b = 0 then (if a = 0 then NaN else signed PInf a) else fl (a / b))"
| "js_div NaN y = NaN"
| "js_div x NaN = NaN"
| "js_div (Fin a) y = Fin 0"
| "js_div x (Fin b) = signed x b"
| "js_div x y = NaN"

text \<open>The comparisons \<open><=\<close> and \<open>>=\<close>; both are false when an operand is NaN.\<close>

fun js_le :: "jsnum \<Rightarrow> jsnum \<Rightarrow> bool" where
  "js_le (Fin a) (Fin b) = (a \<le> b)"
| "js_le NaN y = False"
| "js_le x NaN = False"
| "js_le NInf y = True"
| "js_le x PInf = True"
| "js_le x y = False"

definition js_ge :: "jsnum \<Rightarrow> jsnum \<Rightarrow> bool" where
  "js_ge x y = js_le y x"

text \<open>
  \<open>Math.round\<close> rounds to the nearest integer, a tie towards plus infinity; the result
  is exact. \<open>Math.min\<close> and \<open>Math.max\<close> give NaN when an argument is NaN.
\<close>

fun Math_round :: "jsnum \<Rightarrow> jsnum" where
  "Math_round (Fin x) = Fin (of_int \<lfloor>x + 1 / 2\<rfloor>)"
| "Math_round x = x"

definition Math_min :: "jsnum \<Rightarrow> jsnum \<Rightarrow> jsnum" where
  "Math_min x y = (if x = NaN \<or> y = NaN then NaN else if js_le x y then x else y)"


text \<open>\<open>x || 0\<close> on a number: NaN and zero are falsy.\<close>

definition orZero :: "jsnum \<Rightarrow> jsnum" where
  "orZero x = (if x = NaN \<or> x = Fin 0 then Fin 0 else x)"

datatype jsval =
    Undefined
  | Null
  | JBool bool
  | JNum jsnum
  | JStr string
  | JArr "jsval list"
  | JObj "(string \<times> jsval) list"

datatype error = TypeError | GatewayError | CastError | ValidationError

text \<open>
  Property access \<open>v.k\<close>: a TypeError on \<open>undefined\<close> and \<open>null\<close>, the member of an
  object when it has one, \<open>undefined\<close> otherwise. (The property names read by the
  source are never \<open>length\<close> or a prototype member, so every primitive and every array
  answers \<open>undefined\<close>.)
\<close>

fun getProp :: "jsval \<Rightarrow> string \<Rightarrow> error + jsval" where
  "getProp Undefined k = Inl TypeError"
| "getProp Null k = Inl TypeError"
| "getProp (JObj kvs) k = Inr (case map_of kvs k of Some v \<Rightarrow> v | None \<Rightarrow> Undefined)"
| "getProp v k = Inr Undefined"

text \<open>Truthiness, as tested by \<open>if (v)\<close> and \<open>a && b\<close>.\<close>

fun truthy :: "jsval \<Rightarrow> bool" where
  "truthy Undefined = False"
| "truthy Null = False"
| "truthy (JBool b) = b"
| "truthy (JNum n) = (n \<noteq> Fin 0 \<and> n \<noteq> NaN)"
| "truthy (JStr s) = (s \<noteq> [])"
| "truthy (JArr xs) = True"
| "truthy (JObj kvs) = True"

definition startsWith :: "string \<Rightarrow> string \<Rightarrow> bool" where
  "startsWith s p = (take (length p) s = p)"

definition substring :: "string \<Rightarrow> nat \<Rightarrow> string" where
  "substring s n = drop n s"

section \<open>The M-Pesa adapter: phone numbers\<close>

text \<open>
  \<open>MPESAService.formatPhoneNumber\<close>. The first replacement deletes every run of white
  space, the second every character that is neither a digit nor \<open>+\<close> (so also any
  white space the first one left).
\<close>

definition is_space :: "char \<Rightarrow> bool" where
  "is_space c = (c \<in> set [CHR '' '', CHR 0x09, CHR 0x0A, CHR 0x0B, CHR 0x0C, CHR 0x0D])"

definition is_digit :: "char \<Rightarrow> bool" where
  "is_digit c = (c \<in> set ''0123456789'')"

definition formatPhoneNumber :: "string \<Rightarrow> string" where
  "formatPhoneNumber phoneNumber =
     (let formatted =
            filter (\<lambda>c. is_digit c \<or> c = CHR ''+'') (filter (\<lambda>c. \<not> is_space c) phoneNumber)
      in if startsWith formatted ''+254'' then substring formatted 1
         else if startsWith formatted ''0'' then ''254'' @ substring formatted 1
         else if \<not> startsWith formatted ''254'' then ''254'' @ formatted
         else formatted)"

section \<open>The ledger records\<close>

type_synonym oid = nat

datatype campaign_status = Draft | Active | Paused | Completed

record campaign =
  campaign_id :: oid
  title :: string
  goalAmount :: jsnum
  currentAmount :: jsnum
  campaign_status :: campaign_status

text \<open>The two virtual properties of \<open>CampaignSchema\<close>.\<close>

definition completionPercentage :: "campaign \<Rightarrow> jsnum" where
  "completionPercentage c =
     (if goalAmount c = Fin 0 then Fin 0
      else Math_min (Math_round (js_mul (js_div (currentAmount c) (goalAmount c)) (Fin 100)))
             (Fin 100))"


section \<open>The M-Pesa adapter: parsing a callback\<close>

text \<open>
  Exceptions are values: a function that can throw returns \<open>error + 'a\<close>, and
  \<open>andThen\<close> runs the rest of a block only when the step before it did not throw.
\<close>

definition andThen :: "error + 'a \<Rightarrow> ('a \<Rightarrow> error + 'b) \<Rightarrow> error + 'b" where
  "andThen m f = (case m of Inl e \<Rightarrow> Inl e | Inr x \<Rightarrow> f x)"

text \<open>
  The object built by \<open>MPESAService.processCallback\<close>. The last four fields are set
  only from the callback metadata and are \<open>undefined\<close> until then.
\<close>

record callback_result =
  success :: bool
  merchantRequestID :: jsval
  checkoutRequestID :: jsval
  resultCode :: jsval
  resultDescription :: jsval
  cb_amount :: jsval
  cb_mpesaReceiptNumber :: jsval
  transactionDate :: jsval
  phoneNumber :: jsval

text \<open>The body of the \<open>forEach\<close> callback: the \<open>switch\<close> on \<open>item.Name\<close>.\<close>

definition callbackItem :: "callback_result \<Rightarrow> jsval \<Rightarrow> error + callback_result" where
  "callbackItem result item =
     andThen (getProp item ''Name'') (\<lambda>name.
       if name = JStr ''Amount'' then
         andThen (getProp item ''Value'') (\<lambda>v. Inr (result\<lparr>cb_amount := v\<rparr>))
       else if name = JStr ''MpesaReceiptNumber'' then
         andThen (getProp item ''Value'') (\<lambda>v. Inr (result\<lparr>cb_mpesaReceiptNumber := v\<rparr>))
       else if name = JStr ''TransactionDate'' then
         andThen (getProp item ''Value'') (\<lambda>v. Inr (result\<lparr>transactionDate := v\<rparr>))
       else if name = JStr ''PhoneNumber'' then
         andThen (getProp item ''Value'') (\<lambda>v. Inr (result\<lparr>phoneNumber := v\<rparr>))
       else Inr result)"

fun forEachItem :: "jsval list \<Rightarrow> callback_result \<Rightarrow> error + callback_result" where
  "forEachItem [] result = Inr result"
| "forEachItem (item # items) result =
     andThen (callbackItem result item) (forEachItem items)"

text \<open>
  \<open>MPESAService.processCallback\<close>. \<open>items.forEach\<close> is a TypeError unless \<open>items\<close>
  is an array.
\<close>

definition processCallback :: "jsval \<Rightarrow> error + callback_result" where
  "processCallback callbackData =
     andThen (getProp callbackData ''Body'') (\<lambda>Body.
     andThen (getProp Body ''stkCallback'') (\<lambda>stkCallback.
     andThen (getProp stkCallback ''ResultCode'') (\<lambda>ResultCode.
     andThen (getProp stkCallback ''MerchantRequestID'') (\<lambda>MerchantRequestID.
     andThen (getProp stkCallback ''CheckoutRequestID'') (\<lambda>CheckoutRequestID.
     andThen (getProp stkCallback ''ResultDesc'') (\<lambda>ResultDesc.
       let result = \<lparr> success = (ResultCode = JNum (Fin 0)),
                      merchantRequestID = MerchantRequestID,
                      checkoutRequestID = CheckoutRequestID,
                      resultCode = ResultCode,
                      resultDescription = ResultDesc,
                      cb_amount = Undefined,
                      cb_mpesaReceiptNumber = Undefined,
                      transactionDate = Undefined,
                      phoneNumber = Undefined \<rparr>
       in if ResultCode = JNum (Fin 0) then
            andThen (getProp stkCallback ''CallbackMetadata'') (\<lambda>CallbackMetadata.
              if truthy CallbackMetadata then
                andThen (getProp CallbackMetadata ''Item'') (\<lambda>items.
                  case items of
                    JArr xs \<Rightarrow> forEachItem xs result
                  | _ \<Rightarrow> Inl TypeError)
              else Inr result)
          else Inr result))))))"








section \<open>The Paystack adapter: parsing a webhook\<close>

text \<open>
  The object built by \<open>PaystackService.processWebhook\<close>. \<open>wh_amount\<close> holds
  \<open>payload.data.amount\<close>, which the source divides by 100; the division coerces its
  operand, cannot throw, and no handler reads the quotient.
\<close>

record webhook_result =
  event :: jsval
  wh_success :: bool
  reference :: jsval
  wh_amount :: jsval
  wh_status :: jsval
  paidAt :: jsval
  customer :: jsval
  authorization :: jsval

definition processWebhook :: "jsval \<Rightarrow> error + webhook_result" where
  "processWebhook payload =
     andThen (getProp payload ''event'') (\<lambda>ev.
     andThen (getProp payload ''data'') (\<lambda>data.
     andThen (getProp data ''status'') (\<lambda>st.
     andThen (getProp data ''reference'') (\<lambda>ref.
     andThen (getProp data ''amount'') (\<lambda>amt.
     andThen (getProp data ''paid_at'') (\<lambda>paid.
     andThen (getProp data ''customer'') (\<lambda>cust.
     andThen (getProp data ''authorization'') (\<lambda>auth.
       Inr \<lparr> event = ev,
             wh_success = (st = JStr ''success''),
             reference = ref,
             wh_amount = amt,
             wh_status = st,
             paidAt = paid,
             customer = cust,
             authorization = auth \<rparr>))))))))"


section \<open>The ledger store\<close>

text \<open>
  The three collections the reconciliation handlers read and write, and the users they
  read. A document is a record with its \<open>_id\<close>; fields that no handler reads or writes
  (currency, dates, the time stamps kept by the store) are left out. A collection is
  the list of its documents. A failure of the database itself is not modelled; the
  casts and the validation that the library makes of a value from a payload, before
  \<open>findOne\<close> and \<open>save\<close> reach the database, are.
\<close>

datatype payment_status = PaymentPending | PaymentSuccess | PaymentFailed

record contribution =
  contribution_id :: oid
  userId :: "oid option"
  campaignId :: oid
  amount :: jsnum
  paymentMethod :: string
  paymentStatus :: payment_status
  paymentReference :: string
  transactionId :: "string option"
  mpesaReceiptNumber :: jsval
  isAnonymous :: bool
  guestEmail :: "string option"
  guestName :: "string option"

text \<open>
  What \<open>PaystackService.verifyTransaction\<close> returns, \<open>VerifyTransactionResponse['data']\<close>,
  on the fields the handler reads.
\<close>

datatype paystack_status = VSuccess | VFailed | VAbandoned

record verify_result =
  vr_id :: int
  vr_status :: paystack_status
  vr_reference :: string
  vr_amount :: jsnum
  gateway_response :: string
  paid_at :: string

datatype transaction_status = TxInitiated | TxPending | TxSuccess | TxFailed | TxCancelled

datatype provider = MpesaProvider | PaystackProvider

datatype callback_data = NoCallbackData | CallbackBody jsval | Verification verify_result

record transaction =
  transaction_id :: oid
  contributionId :: oid
  provider :: provider
  transactionReference :: string
  tx_amount :: jsnum
  status :: transaction_status
  providerResponse :: jsval
  callbackData :: callback_data
  errorMessage :: jsval

record user =
  user_id :: oid
  name :: string

text \<open>
  The events of the socket service, each sent to the room of its campaign (the first
  argument); the time stamp added on sending is left out.
\<close>

record contribution_summary =
  cs_amount :: jsnum
  cs_isAnonymous :: bool
  cs_donorName :: "string option"

datatype notification =
    CampaignUpdated oid jsnum jsnum contribution_summary
  | NewContribution oid jsnum bool "string option" string
  | CampaignCompleted oid jsnum jsnum nat

datatype log_entry = ConsoleLog string | ConsoleWarn string | ConsoleError string

text \<open>
  The state a handler runs in: the collections, whether the socket service has been
  given its server (\<open>io\<close>), the events sent so far and the console lines written by the
  handlers and by the socket service.

  The store is reached through Mongoose, a library and not code of the repository. What
  it does with a string on a path of type \<open>String\<close> is written out below. What it does
  there with any other value is a component of the state: \<open>castFilter\<close> reads such a
  value in a query filter (it may take a number as its text, read an object as query
  operators, or fail), and gives the test that the stored string has to pass;
  \<open>castString\<close> casts such a value when it is assigned to a document, or fails, in
  which case \<open>save\<close> throws.
\<close>

record world =
  transactions :: "transaction list"
  contributions :: "contribution list"
  campaigns :: "campaign list"
  users :: "user list"
  io :: bool
  emitted :: "notification list"
  console :: "log_entry list"
  castFilter :: "jsval \<Rightarrow> error + (string \<Rightarrow> bool)"
  castString :: "jsval \<Rightarrow> error + jsval"

text \<open>
  \<open>Transaction.findOne({ transactionReference: key })\<close>: for a string, the first document
  with that reference; for any other value, the first document whose reference passes
  the test the library makes of the value, and an error when the library rejects it.
\<close>

definition findOne_transaction :: "world \<Rightarrow> jsval \<Rightarrow> error + transaction option" where
  "findOne_transaction w key =
     (case key of
        JStr s \<Rightarrow> Inr (find (\<lambda>t. transactionReference t = s) (transactions w))
      | _ \<Rightarrow>
          (case castFilter w key of
             Inl e \<Rightarrow> Inl e
           | Inr test \<Rightarrow> Inr (find (\<lambda>t. test (transactionReference t)) (transactions w))))"

text \<open>
  Assigning a value to a path of type \<open>String\<close> (\<open>errorMessage\<close>,
  \<open>mpesaReceiptNumber\<close>): a string, \<open>null\<close> and \<open>undefined\<close> are kept; any other
  value is cast by the library, and when that fails the next \<open>save\<close> throws.
\<close>

definition storeString :: "world \<Rightarrow> jsval \<Rightarrow> error + jsval" where
  "storeString w v =
     (case v of
        JStr s \<Rightarrow> Inr (JStr s)
      | Null \<Rightarrow> Inr Null
      | Undefined \<Rightarrow> Inr Undefined
      | _ \<Rightarrow> castString w v)"

definition findById_contribution :: "contribution list \<Rightarrow> oid \<Rightarrow> contribution option" where
  "findById_contribution cs i = find (\<lambda>c. contribution_id c = i) cs"

definition findById_campaign :: "campaign list \<Rightarrow> oid \<Rightarrow> campaign option" where
  "findById_campaign cs i = find (\<lambda>c. campaign_id c = i) cs"

definition findById_user :: "user list \<Rightarrow> oid \<Rightarrow> user option" where
  "findById_user us i = find (\<lambda>u. user_id u = i) us"

text \<open>\<open>doc.save()\<close> writes the document back under its \<open>_id\<close>.\<close>

definition save_transaction :: "transaction \<Rightarrow> transaction list \<Rightarrow> transaction list" where
  "save_transaction t ts = map (\<lambda>x. if transaction_id x = transaction_id t then t else x) ts"

definition save_contribution :: "contribution \<Rightarrow> contribution list \<Rightarrow> contribution list" where
  "save_contribution c cs = map (\<lambda>x. if contribution_id x = contribution_id c then c else x) cs"

definition save_campaign :: "campaign \<Rightarrow> campaign list \<Rightarrow> campaign list" where
  "save_campaign c cs = map (\<lambda>x. if campaign_id x = campaign_id c then c else x) cs"

text \<open>\<open>Contribution.countDocuments({ campaignId, paymentStatus: 'success' })\<close>.\<close>

definition countDocuments :: "contribution list \<Rightarrow> oid \<Rightarrow> nat" where
  "countDocuments cs i =
     length (filter (\<lambda>c. campaignId c = i \<and> paymentStatus c = PaymentSuccess) cs)"

section \<open>The socket service\<close>

definition logTo :: "world \<Rightarrow> log_entry \<Rightarrow> world" where
  "logTo w l = w\<lparr>console := console w @ [l]\<rparr>"

definition emitCampaignUpdate ::
  "world \<Rightarrow> oid \<Rightarrow> jsnum \<Rightarrow> jsnum \<Rightarrow> contribution_summary \<Rightarrow> world" where
  "emitCampaignUpdate w cid cur pct nc =
     (if \<not> io w then
        logTo w (ConsoleWarn ''Socket.IO not initialized. Cannot emit campaign update.'')
      else
        logTo (w\<lparr>emitted := emitted w @ [CampaignUpdated cid cur pct nc]\<rparr>)
          (ConsoleLog ''Emitted campaign update to room''))"

definition emitNewContribution ::
  "world \<Rightarrow> oid \<Rightarrow> jsnum \<Rightarrow> bool \<Rightarrow> string option \<Rightarrow> string \<Rightarrow> world" where
  "emitNewContribution w cid amt anon donorName method =
     (if \<not> io w then
        logTo w (ConsoleWarn ''Socket.IO not initialized. Cannot emit new contribution.'')
      else
        logTo (w\<lparr>emitted := emitted w @ [NewContribution cid amt anon donorName method]\<rparr>)
          (ConsoleLog ''Emitted new contribution to room''))"

definition emitCampaignCompleted :: "world \<Rightarrow> oid \<Rightarrow> jsnum \<Rightarrow> jsnum \<Rightarrow> nat \<Rightarrow> world" where
  "emitCampaignCompleted w cid goal cur totalContributions =
     (if \<not> io w then
        logTo w (ConsoleWarn ''Socket.IO not initialized. Cannot emit campaign completion.'')
      else
        logTo (w\<lparr>emitted := emitted w @ [CampaignCompleted cid goal cur totalContributions]\<rparr>)
          (ConsoleLog ''Emitted campaign completion to room''))"

section \<open>Reconciliation\<close>

text \<open>What a handler answers: the status code and the JSON body.\<close>

record verify_data =
  vd_status :: paystack_status
  vd_amount :: jsnum
  vd_reference :: string
  vd_paid_at :: string
  vd_contributionId :: "oid option"

datatype response_body =
    ResultBody int string
  | StatusBody string
  | MessageBody bool string
  | VerifyBody bool string verify_data

record response =
  http_status :: nat
  resp_body :: response_body

text \<open>
  The donor name of a contribution, as each handler computes it before it emits:
  nothing when the contribution is anonymous, the name of the user when there is a user
  reference (nothing when that user is gone), the guest name otherwise.
\<close>

definition donorName :: "user list \<Rightarrow> contribution \<Rightarrow> string option" where
  "donorName us c =
     (if \<not> isAnonymous c then
        (case userId c of
           Some u \<Rightarrow> (case findById_user us u of Some usr \<Rightarrow> Some (name usr) | None \<Rightarrow> None)
         | None \<Rightarrow> guestName c)
      else None)"

text \<open>
  The block \<open>if (campaign) { ... }\<close> that the three handlers repeat word for word, but
  for the payment method in the new-contribution event and the text of the last console
  line: credit the campaign, emit the two events, then check for completion. The first
  \<open>campaign.save()\<close> validates the new \<open>currentAmount\<close> against the schema's minimum
  of 0 and throws when it fails (NaN fails it); nothing has been written then. The paths
  of a stored document that no handler assigns are as its schema wants them, and their
  validation is not modelled.
\<close>

definition creditCampaign ::
  "world \<Rightarrow> contribution \<Rightarrow> string \<Rightarrow> string \<Rightarrow> error + world" where
  "creditCampaign w contribution method logLine =
     (case findById_campaign (campaigns w) (campaignId contribution) of
        None \<Rightarrow> Inr w
      | Some found \<Rightarrow>
          let campaign = found\<lparr>currentAmount :=
                                 js_add (currentAmount found) (amount contribution)\<rparr>
          in if \<not> js_ge (currentAmount campaign) (Fin 0) then Inl ValidationError
             else
               let w1 = w\<lparr>campaigns := save_campaign campaign (campaigns w)\<rparr>;
                   dn = donorName (users w1) contribution;
                   w2 = emitCampaignUpdate w1 (campaign_id campaign) (currentAmount campaign)
                          (orZero (completionPercentage campaign))
                          \<lparr> cs_amount = amount contribution,
                            cs_isAnonymous = isAnonymous contribution,
                            cs_donorName = dn \<rparr>;
                   w3 = emitNewContribution w2 (campaign_id campaign) (amount contribution)
                          (isAnonymous contribution) dn method;
                   w4 = (if js_ge (currentAmount campaign) (goalAmount campaign)
                            \<and> campaign_status campaign \<noteq> Completed
                         then
                           let completed = campaign\<lparr>campaign_status := Completed\<rparr>;
                               w' = w3\<lparr>campaigns := save_campaign completed (campaigns w3)\<rparr>;
                               totalContributions =
                                 countDocuments (contributions w') (campaign_id completed)
                           in emitCampaignCompleted w' (campaign_id completed)
                                (goalAmount completed) (currentAmount completed)
                                totalContributions
                         else w3)
               in Inr (logTo w4 (ConsoleLog logLine)))"

text \<open>
  \<open>handleMPESACallback\<close>: \<open>POST /api/payments/mpesa/callback\<close>. Whatever throws inside
  the \<open>try\<close> is answered by the \<open>catch\<close> with status 500, in the state reached.
\<close>

definition handleMPESACallback :: "world \<Rightarrow> jsval \<Rightarrow> world \<times> response" where
  "handleMPESACallback w0 reqBody =
     (let w = logTo w0 (ConsoleLog ''MPESA Callback received:'');
          caught = (\<lambda>s. (logTo s (ConsoleError ''MPESA callback error:''),
                         \<lparr> http_status = 500,
                           resp_body = ResultBody 1 ''Internal server error'' \<rparr>));
          accepted = \<lparr> http_status = 200, resp_body = ResultBody 0 ''Accepted'' \<rparr>
      in case processCallback reqBody of
           Inl e \<Rightarrow> caught w
         | Inr callbackResult \<Rightarrow>
             (case findOne_transaction w (checkoutRequestID callbackResult) of
                Inl e \<Rightarrow> caught w
              | Inr None \<Rightarrow>
                  (logTo w (ConsoleError ''Transaction not found for CheckoutRequestID:''),
                   \<lparr> http_status = 404, resp_body = ResultBody 1 ''Transaction not found'' \<rparr>)
              | Inr (Some found) \<Rightarrow>
                  (case (if \<not> success callbackResult
                         then storeString w (resultDescription callbackResult)
                         else Inr (errorMessage found)) of
                     Inl e \<Rightarrow> caught w
                   | Inr message \<Rightarrow>
                       let t = found\<lparr> status := (if success callbackResult
                                                   then TxSuccess else TxFailed),
                                     callbackData := CallbackBody reqBody,
                                     errorMessage := message \<rparr>;
                           w1 = w\<lparr>transactions := save_transaction t (transactions w)\<rparr>
                       in (case findById_contribution (contributions w1) (contributionId t) of
                             None \<Rightarrow> (w1, accepted)
                           | Some c \<Rightarrow>
                               (case (if truthy (cb_mpesaReceiptNumber callbackResult)
                                      then storeString w1 (cb_mpesaReceiptNumber callbackResult)
                                      else Inr (mpesaReceiptNumber c)) of
                                  Inl e \<Rightarrow> caught w1
                                | Inr receipt \<Rightarrow>
                                    let c' = c\<lparr> paymentStatus :=
                                                  (if success callbackResult
                                                   then PaymentSuccess else PaymentFailed),
                                                mpesaReceiptNumber := receipt \<rparr>;
                                        w2 = w1\<lparr>contributions :=
                                                  save_contribution c' (contributions w1)\<rparr>
                                    in if success callbackResult
                                       then (case creditCampaign w2 c' ''mpesa''
                                                    ''Campaign updated:'' of
                                               Inl e \<Rightarrow> caught w2
                                             | Inr w3 \<Rightarrow> (w3, accepted))
                                       else (w2, accepted))))))"

text \<open>
  \<open>Number.prototype.toString\<close> on the integer \<open>verificationResult.id\<close>: its decimal
  digits.
\<close>

fun decimal :: "nat \<Rightarrow> string" where
  "decimal n =
     (if n < 10 then [''0123456789'' ! n]
      else decimal (n div 10) @ [''0123456789'' ! (n mod 10)])"

declare decimal.simps [simp del]

definition toString :: "int \<Rightarrow> string" where
  "toString i = (if i < 0 then CHR ''-'' # decimal (nat (- i)) else decimal (nat i))"

text \<open>
  \<open>verifyPaystackPayment\<close>: \<open>GET /api/payments/paystack/verify/:reference\<close>. The
  answer of the gateway is an argument: \<open>Inl\<close> when \<open>verifyTransaction\<close> threw.
\<close>

definition verifyPaystackPayment ::
  "world \<Rightarrow> string \<Rightarrow> error + verify_result \<Rightarrow> world \<times> response" where
  "verifyPaystackPayment w ref verification =
     (let caught = (\<lambda>s. (logTo s (ConsoleError ''Verify Paystack payment error:''),
                         \<lparr> http_status = 500,
                           resp_body = MessageBody False ''Failed to verify payment.'' \<rparr>))
      in case verification of
           Inl e \<Rightarrow> caught w
         | Inr verificationResult \<Rightarrow>
             (case findOne_transaction w (JStr ref) of
                Inl e \<Rightarrow> caught w
              | Inr None \<Rightarrow>
                  (w, \<lparr> http_status = 404,
                        resp_body = MessageBody False ''Transaction not found.'' \<rparr>)
              | Inr (Some found) \<Rightarrow>
                  let ok = (vr_status verificationResult = VSuccess);
                      t = found\<lparr> status := (if ok then TxSuccess else TxFailed),
                                callbackData := Verification verificationResult,
                                errorMessage := (if \<not> ok
                                                 then JStr (gateway_response verificationResult)
                                                 else errorMessage found) \<rparr>;
                      w1 = w\<lparr>transactions := save_transaction t (transactions w)\<rparr>;
                      contribution = findById_contribution (contributions w1) (contributionId t);
                      answer = \<lparr> http_status = 200,
                                 resp_body =
                                   VerifyBody True
                                     (if ok then ''Payment successful!'' else ''Payment failed'')
                                     \<lparr> vd_status = vr_status verificationResult,
                                       vd_amount = js_div (vr_amount verificationResult) (Fin 100),
                                       vd_reference = vr_reference verificationResult,
                                       vd_paid_at = paid_at verificationResult,
                                       vd_contributionId =
                                         map_option contribution_id contribution \<rparr> \<rparr>
                  in (case contribution of
                        None \<Rightarrow> (w1, answer)
                      | Some c \<Rightarrow>
                          let c' = c\<lparr> paymentStatus :=
                                        (if ok then PaymentSuccess else PaymentFailed),
                                      transactionId :=
                                        Some (toString (vr_id verificationResult)) \<rparr>;
                              w2 = w1\<lparr>contributions := save_contribution c' (contributions w1)\<rparr>
                          in if ok
                             then (case creditCampaign w2 c' ''card'' ''Campaign updated:'' of
                                     Inl e \<Rightarrow> caught w2
                                   | Inr w3 \<Rightarrow> (w3, answer))
                             else (w2, answer))))"

text \<open>\<open>handlePaystackWebhook\<close>: \<open>POST /api/payments/paystack/webhook\<close>.\<close>

definition handlePaystackWebhook :: "world \<Rightarrow> jsval \<Rightarrow> world \<times> response" where
  "handlePaystackWebhook w0 reqBody =
     (let w = logTo w0 (ConsoleLog ''Paystack Webhook received:'');
          caught = (\<lambda>s. (logTo s (ConsoleError ''Paystack webhook error:''),
                         \<lparr> http_status = 500, resp_body = StatusBody ''error'' \<rparr>));
          succeeded = \<lparr> http_status = 200, resp_body = StatusBody ''success'' \<rparr>
      in case processWebhook reqBody of
           Inl e \<Rightarrow> caught w
         | Inr webhookResult \<Rightarrow>
             if event webhookResult \<noteq> JStr ''charge.success'' then
               (w, \<lparr> http_status = 200, resp_body = StatusBody ''ignored'' \<rparr>)
             else
               (case findOne_transaction w (reference webhookResult) of
                  Inl e \<Rightarrow> caught w
                | Inr None \<Rightarrow>
                    (logTo w (ConsoleError ''Transaction not found for reference:''),
                     \<lparr> http_status = 404, resp_body = StatusBody ''transaction not found'' \<rparr>)
                | Inr (Some found) \<Rightarrow>
                    let t = found\<lparr> status := (if wh_success webhookResult
                                                then TxSuccess else TxFailed),
                                  callbackData := CallbackBody reqBody \<rparr>;
                        w1 = w\<lparr>transactions := save_transaction t (transactions w)\<rparr>
                    in (case findById_contribution (contributions w1) (contributionId t) of
                          None \<Rightarrow> (w1, succeeded)
                        | Some c \<Rightarrow>
                            let c' = c\<lparr> paymentStatus :=
                                          (if wh_success webhookResult
                                           then PaymentSuccess else PaymentFailed) \<rparr>;
                                w2 = w1\<lparr>contributions :=
                                          save_contribution c' (contributions w1)\<rparr>
                            in if wh_success webhookResult
                               then (case creditCampaign w2 c' ''card''
                                            ''Campaign updated via webhook:'' of
                                       Inl e \<Rightarrow> caught w2
                                     | Inr w3 \<Rightarrow> (w3, succeeded))
                               else (w2, succeeded))))"

section \<open>Notions used by the properties\<close>

text \<open>
  A provider takes a notification as handled, and stops delivering it, when the answer
  has a 2xx status.
\<close>

definition acknowledged :: "response \<Rightarrow> bool" where
  "acknowledged r = (200 \<le> http_status r \<and> http_status r < 300)"

text \<open>
  Two versions of a document that agree on every field but the ones named: for a
  transaction the status, the callback payload and the error message; for a contribution
  the payment status, or the payment status and the gateway's transaction id.
\<close>

definition transaction_frame :: "transaction \<Rightarrow> transaction \<Rightarrow> bool" where
  "transaction_frame t t' =
     (t'\<lparr>status := status t, callbackData := callbackData t, errorMessage := errorMessage t\<rparr> = t)"

definition contribution_status_frame :: "contribution \<Rightarrow> contribution \<Rightarrow> bool" where
  "contribution_status_frame c c' = (c'\<lparr>paymentStatus := paymentStatus c\<rparr> = c)"

definition contribution_frame :: "contribution \<Rightarrow> contribution \<Rightarrow> bool" where
  "contribution_frame c c' =
     (c'\<lparr>paymentStatus := paymentStatus c, transactionId := transactionId c\<rparr> = c)"




text \<open>A value that can be assigned to a path of type \<open>String\<close> and saved.\<close>

definition storable :: "world \<Rightarrow> jsval \<Rightarrow> bool" where
  "storable w v = (\<not> isl (storeString w v))"


text \<open>The accumulated amount of the campaign with a given id.\<close>

definition accumulated :: "world \<Rightarrow> oid \<Rightarrow> jsnum option" where
  "accumulated w i = map_option currentAmount (findById_campaign (campaigns w) i)"

text \<open>
  The donor name the properties speak of: none for an anonymous contribution; otherwise
  the name of the linked user when there is a user reference, else the guest name.
\<close>

definition displayName :: "user list \<Rightarrow> contribution \<Rightarrow> string option" where
  "displayName us c =
     (if isAnonymous c then None
      else case userId c of
             Some u \<Rightarrow> map_option name (findById_user us u)
           | None \<Rightarrow> guestName c)"

fun is_CampaignCompleted :: "notification \<Rightarrow> bool" where
  "is_CampaignCompleted (CampaignCompleted i goal cur n) = True"
| "is_CampaignCompleted e = False"

section \<open>A small ledger\<close>

text \<open>
  One active campaign with goal 1000 and nothing collected; a pending anonymous guest
  contribution of 1000 by M-Pesa and a pending contribution of 250 by card from a
  registered user, each with its transaction. The library of this ledger rejects
  every value that is not a string; the examples use strings only.
\<close>

definition campaign0 :: campaign where
  "campaign0 = \<lparr> campaign_id = 5, title = ''Building fund'', goalAmount = Fin 1000,
                 currentAmount = Fin 0, campaign_status = Active \<rparr>"

definition contribution0 :: contribution where
  "contribution0 =
     \<lparr> contribution_id = 10, userId = None, campaignId = 5, amount = Fin 1000,
       paymentMethod = ''mpesa'', paymentStatus = PaymentPending,
       paymentReference = ''ws_CO_1'', transactionId = None, mpesaReceiptNumber = Null,
       isAnonymous = True, guestEmail = Some ''guest@example.com'',
       guestName = Some ''Wanjiru'' \<rparr>"

definition contribution1 :: contribution where
  "contribution1 =
     \<lparr> contribution_id = 11, userId = Some 7, campaignId = 5, amount = Fin 250,
       paymentMethod = ''card'', paymentStatus = PaymentPending,
       paymentReference = ''ps_ref_1'', transactionId = None, mpesaReceiptNumber = Null,
       isAnonymous = False, guestEmail = None, guestName = None \<rparr>"

definition transaction0 :: transaction where
  "transaction0 =
     \<lparr> transaction_id = 100, contributionId = 10, provider = MpesaProvider,
       transactionReference = ''ws_CO_1'', tx_amount = Fin 1000, status = TxPending,
       providerResponse = JObj [], callbackData = NoCallbackData, errorMessage = Null \<rparr>"

definition transaction1 :: transaction where
  "transaction1 =
     \<lparr> transaction_id = 101, contributionId = 11, provider = PaystackProvider,
       transactionReference = ''ps_ref_1'', tx_amount = Fin 250, status = TxInitiated,
       providerResponse = JObj [], callbackData = NoCallbackData, errorMessage = Null \<rparr>"

definition user0 :: user where
  "user0 = \<lparr> user_id = 7, name = ''Achieng'' \<rparr>"

definition world0 :: world where
  "world0 = \<lparr> transactions = [transaction0, transaction1],
              contributions = [contribution0, contribution1],
              campaigns = [campaign0], users = [user0], io = True, emitted = [],
              console = [], castFilter = (\<lambda>v. Inl CastError),
              castString = (\<lambda>v. Inl CastError) \<rparr>"

text \<open>The same ledger once the campaign has reached its goal.\<close>

definition campaignDone :: campaign where
  "campaignDone = campaign0\<lparr>currentAmount := Fin 1000, campaign_status := Completed\<rparr>"

definition worldDone :: world where
  "worldDone = world0\<lparr>campaigns := [campaignDone]\<rparr>"

text \<open>An M-Pesa callback for a paid request, and one for a request the payer cancelled.\<close>

definition stkPaid :: "string \<Rightarrow> jsval" where
  "stkPaid ref =
     JObj [(''Body'', JObj [(''stkCallback'',
       JObj [(''MerchantRequestID'', JStr ''29115-34620561-1''),
             (''CheckoutRequestID'', JStr ref),
             (''ResultCode'', JNum (Fin 0)),
             (''ResultDesc'', JStr ''The service request is processed successfully.''),
             (''CallbackMetadata'', JObj [(''Item'',
                JArr [JObj [(''Name'', JStr ''Amount''), (''Value'', JNum (Fin 1000))],
                      JObj [(''Name'', JStr ''MpesaReceiptNumber''),
                            (''Value'', JStr ''NLJ7RT61SV'')]])])])])]"

definition stkCancelled :: "string \<Rightarrow> jsval" where
  "stkCancelled ref =
     JObj [(''Body'', JObj [(''stkCallback'',
       JObj [(''MerchantRequestID'', JStr ''29115-34620561-1''),
             (''CheckoutRequestID'', JStr ref),
             (''ResultCode'', JNum (Fin 1032)),
             (''ResultDesc'', JStr ''Request cancelled by user'')])])]"


text \<open>A Paystack \<open>charge.success\<close> webhook and a verification answer.\<close>

definition chargeSuccess :: "string \<Rightarrow> string \<Rightarrow> jsval" where
  "chargeSuccess ref st =
     JObj [(''event'', JStr ''charge.success''),
           (''data'', JObj [(''status'', JStr st), (''reference'', JStr ref),
                            (''amount'', JNum (Fin 25000))])]"


text \<open>A webhook for another event.\<close>

definition chargeFailed :: "string \<Rightarrow> jsval" where
  "chargeFailed ref =
     JObj [(''event'', JStr ''charge.failed''),
           (''data'', JObj [(''status'', JStr ''failed''), (''reference'', JStr ref),
                            (''amount'', JNum (Fin 25000))])]"

definition verification0 :: "paystack_status \<Rightarrow> verify_result" where
  "verification0 st =
     \<lparr> vr_id = 7421, vr_status = st, vr_reference = ''ps_ref_1'', vr_amount = Fin 25000,
       gateway_response = ''Declined'', paid_at = ''2025-01-01T10:00:00.000Z'' \<rparr>"

section \<open>Phone-number normalisation\<close>

lemma digits_not_space: "\<forall>c\<in>set ''0123456789''. \<not> is_space c"
  by (simp add: is_space_def)

lemma digit_not_space: "is_digit c \<Longrightarrow> \<not> is_space c"
  using digits_not_space unfolding is_digit_def by blast

lemma filter_digits_id:
  assumes "\<forall>c\<in>set d. is_digit c"
  shows "filter (\<lambda>c. is_digit c \<or> c = CHR ''+'') (filter (\<lambda>c. \<not> is_space c) d) = d"
proof -
  have "\<forall>c\<in>set d. \<not> is_space c"
    using assms digit_not_space by blast
  then have "filter (\<lambda>c. \<not> is_space c) d = d"
    by (simp add: filter_id_conv)
  moreover have "filter (\<lambda>c. is_digit c \<or> c = CHR ''+'') d = d"
    using assms by (simp add: filter_id_conv)
  ultimately show ?thesis by simp
qed

text \<open>
  C6. For every digit string \<open>d\<close>, the three spellings \<open>+254d\<close>, \<open>0d\<close> and \<open>254d\<close> of a
  number are normalised to the same canonical token \<open>254d\<close>; so \<open>0703757369\<close>,
  \<open>+254703757369\<close> and \<open>254703757369\<close> all become \<open>254703757369\<close>.
\<close>

theorem formatPhoneNumber_canonical:
  assumes "\<forall>c\<in>set d. is_digit c"
  shows "formatPhoneNumber (''+254'' @ d) = ''254'' @ d
       \<and> formatPhoneNumber (''0'' @ d) = ''254'' @ d
       \<and> formatPhoneNumber (''254'' @ d) = ''254'' @ d"
proof -
  have f: "filter (\<lambda>c. is_digit c \<or> c = CHR ''+'') (filter (\<lambda>c. \<not> is_space c) d) = d"
    using assms by (rule filter_digits_id)
  have a: "formatPhoneNumber (''+254'' @ d) = ''254'' @ d"
    using f by (simp add: formatPhoneNumber_def is_digit_def is_space_def startsWith_def
        substring_def)
  have b: "formatPhoneNumber (''0'' @ d) = ''254'' @ d"
    using f by (simp add: formatPhoneNumber_def is_digit_def is_space_def startsWith_def
        substring_def)
  have c: "formatPhoneNumber (''254'' @ d) = ''254'' @ d"
    using f by (simp add: formatPhoneNumber_def is_digit_def is_space_def startsWith_def
        substring_def)
  from a b c show ?thesis by simp
qed

theorem formatPhoneNumber_canonical_witness:
  "list_all is_digit ''703757369''
   \<and> formatPhoneNumber ''+254703757369'' = ''254703757369''
   \<and> formatPhoneNumber ''0703757369'' = ''254703757369''
   \<and> formatPhoneNumber ''254703757369'' = ''254703757369''"
proof -
  have h: "\<forall>c\<in>set ''703757369''. is_digit c"
    by (simp add: is_digit_def)
  show ?thesis
    using h formatPhoneNumber_canonical [OF h] by (simp add: list_all_iff)
qed

section \<open>Powers of two\<close>

lemma pow2p_eq: "pow2p k = 2 ^ nat k"
proof (induction k rule: pow2p.induct)
  case (1 k)
  show ?case
  proof (cases "k \<le> 0")
    case True
    then show ?thesis by (simp add: pow2p.simps)
  next
    case False
    then have k: "0 < k" by simp
    show ?thesis
    proof (cases "even k")
      case True
      then obtain j where j: "k = 2 * j" by (auto elim: evenE)
      with k have "nat k = 2 * nat j" by simp
      with 1(1) [OF False True] True False j show ?thesis
        by (subst pow2p.simps) (simp add: power_mult [symmetric] mult.commute)
    next
      case odd: False
      then obtain j where j: "k = 2 * j + 1" by (auto elim: oddE)
      with k have "nat k = Suc (2 * nat j)" by simp
      with 1(2) [OF False odd] odd False j show ?thesis
        by (subst pow2p.simps) (simp add: power_mult [symmetric] mult.commute)
    qed
  qed
qed

lemma pow2_code [code]: "pow2 k = (if 0 \<le> k then pow2p k else 1 / pow2p (- k))"
  by (simp add: pow2_def pow2p_eq)

lemma pow2_pos: "0 < pow2 k"
  by (simp add: pow2_def)

section \<open>Lookups after a save\<close>

lemma find_save:
  "find (\<lambda>x. f x = i) (map (\<lambda>x. if f x = f d then d else x) xs) =
     (if i = f d then (case find (\<lambda>x. f x = i) xs of None \<Rightarrow> None | Some y \<Rightarrow> Some d)
      else find (\<lambda>x. f x = i) xs)"
  by (induction xs) auto

lemma find_Some_key: "find (\<lambda>x. f x = i) xs = Some y \<Longrightarrow> f y = i"
  by (induction xs) (auto split: if_splits)

lemma find_Some_mem: "find P xs = Some x \<Longrightarrow> x \<in> set xs"
  by (induction xs) (auto split: if_splits)

lemma findById_campaign_save:
  "findById_campaign (save_campaign d cs) i =
     (if i = campaign_id d then (case findById_campaign cs i of None \<Rightarrow> None | Some y \<Rightarrow> Some d)
      else findById_campaign cs i)"
  unfolding findById_campaign_def save_campaign_def by (rule find_save)

lemma findById_contribution_save:
  "findById_contribution (save_contribution d cs) i =
     (if i = contribution_id d then (case findById_contribution cs i of None \<Rightarrow> None | Some y \<Rightarrow> Some d)
      else findById_contribution cs i)"
  unfolding findById_contribution_def save_contribution_def by (rule find_save)

lemma findById_campaign_id: "findById_campaign cs i = Some g \<Longrightarrow> campaign_id g = i"
  unfolding findById_campaign_def by (rule find_Some_key)

lemma findById_contribution_id: "findById_contribution cs i = Some c \<Longrightarrow> contribution_id c = i"
  unfolding findById_contribution_def by (rule find_Some_key)

text \<open>
  Saving a new version of the transaction a query found, with its reference kept: the
  same query finds the saved version.
\<close>

lemma find_test_save:
  assumes "find (\<lambda>x. P (transactionReference x)) ts = Some t"
    and "transaction_id t' = transaction_id t"
    and "transactionReference t' = transactionReference t"
  shows "find (\<lambda>x. P (transactionReference x))
           (map (\<lambda>x. if transaction_id x = transaction_id t' then t' else x) ts) = Some t'"
  using assms by (induction ts) (auto split: if_splits)

lemma findOne_transaction_find:
  assumes "findOne_transaction w key = Inr (Some t)"
  shows "\<exists>P. \<forall>w'. castFilter w' = castFilter w \<longrightarrow>
               findOne_transaction w' key =
                 Inr (find (\<lambda>x. P (transactionReference x)) (transactions w'))"
proof (cases key)
  case (JStr s)
  show ?thesis
    by (rule exI [of _ "\<lambda>r. r = s"]) (simp add: findOne_transaction_def JStr)
qed (use assms in \<open>auto simp: findOne_transaction_def split: sum.splits\<close>)

lemma findOne_transaction_save:
  assumes f: "findOne_transaction w key = Inr (Some t)"
    and t': "transaction_id t' = transaction_id t"
            "transactionReference t' = transactionReference t"
    and w': "castFilter w' = castFilter w"
            "transactions w' = save_transaction t' (transactions w)"
  shows "findOne_transaction w' key = Inr (Some t')"
proof -
  from findOne_transaction_find [OF f] obtain P where
    p: "\<And>v. castFilter v = castFilter w \<Longrightarrow>
           findOne_transaction v key = Inr (find (\<lambda>x. P (transactionReference x)) (transactions v))"
    by blast
  from p [of w] f have "find (\<lambda>x. P (transactionReference x)) (transactions w) = Some t"
    by simp
  from find_test_save [OF this t'] p [OF w'(1)] w'(2) show ?thesis
    by (simp add: save_transaction_def)
qed

lemma findOne_transaction_mem: "findOne_transaction w key = Inr (Some t) \<Longrightarrow> t \<in> set (transactions w)"
  by (auto simp: findOne_transaction_def split: jsval.splits sum.splits dest: find_Some_mem)

lemma findById_contribution_mem: "findById_contribution cs i = Some c \<Longrightarrow> c \<in> set cs"
  by (auto simp: findById_contribution_def dest: find_Some_mem)

section \<open>The crediting block\<close>

lemmas socket_defs = emitCampaignUpdate_def emitNewContribution_def emitCampaignCompleted_def
  logTo_def

lemma creditCampaign_frame:
  assumes "creditCampaign w c m l = Inr w'"
  shows "transactions w' = transactions w" and "contributions w' = contributions w"
    and "users w' = users w" and "io w' = io w"
    and "castFilter w' = castFilter w" and "castString w' = castString w"
  using assms
  by (auto simp: creditCampaign_def Let_def socket_defs split: option.splits if_splits)

lemma creditCampaign_absent:
  "findById_campaign (campaigns w) (campaignId c) = None \<Longrightarrow> creditCampaign w c m l = Inr w"
  by (simp add: creditCampaign_def)

lemma creditCampaign_invalid:
  assumes "findById_campaign (campaigns w) (campaignId c) = Some g"
    and "\<not> js_ge (js_add (currentAmount g) (amount c)) (Fin 0)"
  shows "creditCampaign w c m l = Inl ValidationError"
  using assms by (simp add: creditCampaign_def Let_def)

lemma creditCampaign_Inl: "creditCampaign w c m l = Inl e \<Longrightarrow> e = ValidationError"
  by (auto simp: creditCampaign_def Let_def split: option.splits if_splits)

lemma creditCampaign_valid:
  assumes "findById_campaign (campaigns w) (campaignId c) = Some g"
    and "js_ge (js_add (currentAmount g) (amount c)) (Fin 0)"
  shows "\<exists>w'. creditCampaign w c m l = Inr w'"
  using assms by (simp add: creditCampaign_def Let_def)

lemma creditCampaign_campaigns:
  assumes "findById_campaign (campaigns w) (campaignId c) = Some g"
    and "creditCampaign w c m l = Inr w'"
  shows "campaigns w' =
           (let g1 = g\<lparr>currentAmount := js_add (currentAmount g) (amount c)\<rparr>
            in if js_ge (currentAmount g1) (goalAmount g1) \<and> campaign_status g1 \<noteq> Completed
               then save_campaign (g1\<lparr>campaign_status := Completed\<rparr>) (save_campaign g1 (campaigns w))
               else save_campaign g1 (campaigns w))"
  using assms by (auto simp: creditCampaign_def Let_def socket_defs split: if_splits)

lemma creditCampaign_lookup:
  assumes g: "findById_campaign (campaigns w) (campaignId c) = Some g"
    and r: "creditCampaign w c m l = Inr w'"
  shows "findById_campaign (campaigns w') (campaignId c) =
           Some (g\<lparr> currentAmount := js_add (currentAmount g) (amount c),
                    campaign_status := (if js_ge (js_add (currentAmount g) (amount c)) (goalAmount g)
                                        then Completed else campaign_status g) \<rparr>)"
proof -
  have i: "campaign_id g = campaignId c"
    using g by (rule findById_campaign_id)
  show ?thesis
    using g i
    by (simp add: creditCampaign_campaigns [OF g r] Let_def findById_campaign_save)
qed

lemma creditCampaign_lookup_other:
  assumes "i \<noteq> campaignId c" and r: "creditCampaign w c m l = Inr w'"
  shows "findById_campaign (campaigns w') i = findById_campaign (campaigns w) i"
proof (cases "findById_campaign (campaigns w) (campaignId c)")
  case None
  with r show ?thesis by (simp add: creditCampaign_absent)
next
  case (Some g)
  have "campaign_id g = campaignId c"
    using Some by (rule findById_campaign_id)
  with assms(1) show ?thesis
    by (simp add: creditCampaign_campaigns [OF Some r] Let_def findById_campaign_save)
qed

lemma creditCampaign_emitted:
  assumes "findById_campaign (campaigns w) (campaignId c) = Some g" and "io w"
    and "creditCampaign w c m l = Inr w'"
  shows "emitted w' =
           emitted w @
           [CampaignUpdated (campaign_id g) (js_add (currentAmount g) (amount c))
              (orZero (completionPercentage (g\<lparr>currentAmount := js_add (currentAmount g) (amount c)\<rparr>)))
              \<lparr> cs_amount = amount c, cs_isAnonymous = isAnonymous c,
                cs_donorName = donorName (users w) c \<rparr>,
            NewContribution (campaign_id g) (amount c) (isAnonymous c) (donorName (users w) c) m] @
           (if js_ge (js_add (currentAmount g) (amount c)) (goalAmount g)
               \<and> campaign_status g \<noteq> Completed
            then [CampaignCompleted (campaign_id g) (goalAmount g)
                    (js_add (currentAmount g) (amount c))
                    (countDocuments (contributions w) (campaign_id g))]
            else [])"
  using assms by (auto simp: creditCampaign_def Let_def socket_defs split: if_splits)

section \<open>The paths through the handlers\<close>

lemma storeString_update [simp]:
  "storeString (w\<lparr>console := a\<rparr>) v = storeString w v"
  "storeString (w\<lparr>transactions := b\<rparr>) v = storeString w v"
  "storeString (w\<lparr>contributions := c\<rparr>) v = storeString w v"
  by (simp_all add: storeString_def split: jsval.splits)

lemma findOne_transaction_update [simp]:
  "findOne_transaction (w\<lparr>console := a\<rparr>) key = findOne_transaction w key"
  by (simp add: findOne_transaction_def split: jsval.splits sum.splits)

lemma storeString_cong:
  "castString w' = castString w \<Longrightarrow> storeString w' v = storeString w v"
  by (simp add: storeString_def split: jsval.splits)

lemma forEachItem_success: "forEachItem xs r = Inr r' \<Longrightarrow> success r' = success r"
proof (induction xs arbitrary: r)
  case Nil
  then show ?case by simp
next
  case (Cons x xs)
  from Cons.prems obtain r1 where a: "callbackItem r x = Inr r1" and b: "forEachItem xs r1 = Inr r'"
    by (auto simp: andThen_def split: sum.splits)
  from a have "success r1 = success r"
    by (auto simp: callbackItem_def andThen_def split: sum.splits if_splits)
  with Cons.IH [OF b] show ?case by simp
qed

lemma processCallback_failed_receipt:
  assumes "processCallback p = Inr cr" and "\<not> success cr"
  shows "cb_mpesaReceiptNumber cr = Undefined"
  using assms
  by (auto simp: processCallback_def andThen_def Let_def
      split: sum.splits if_splits jsval.splits dest: forEachItem_success)

lemma mpesa_parse_error:
  assumes "processCallback p = Inl e"
  shows "handleMPESACallback w p =
           (w\<lparr>console := console w @ [ConsoleLog ''MPESA Callback received:'',
                                        ConsoleError ''MPESA callback error:'']\<rparr>,
            \<lparr> http_status = 500, resp_body = ResultBody 1 ''Internal server error'' \<rparr>)"
  using assms by (simp add: handleMPESACallback_def logTo_def)

lemma mpesa_unknown:
  assumes "processCallback p = Inr cr"
    and "findOne_transaction w (checkoutRequestID cr) = Inr None"
  shows "handleMPESACallback w p =
           (w\<lparr>console := console w @ [ConsoleLog ''MPESA Callback received:'',
                 ConsoleError ''Transaction not found for CheckoutRequestID:'']\<rparr>,
            \<lparr> http_status = 404, resp_body = ResultBody 1 ''Transaction not found'' \<rparr>)"
  using assms by (simp add: handleMPESACallback_def logTo_def)

lemma mpesa_success:
  assumes "processCallback p = Inr cr" and "success cr"
    and "findOne_transaction w (checkoutRequestID cr) = Inr (Some t)"
    and "findById_contribution (contributions w) (contributionId t) = Some c"
    and "(if truthy (cb_mpesaReceiptNumber cr) then storeString w (cb_mpesaReceiptNumber cr)
          else Inr (mpesaReceiptNumber c)) = Inr receipt"
  shows "handleMPESACallback w p =
           (let c' = c\<lparr>paymentStatus := PaymentSuccess, mpesaReceiptNumber := receipt\<rparr>;
                w2 = w\<lparr> console := console w @ [ConsoleLog ''MPESA Callback received:''],
                        transactions :=
                          save_transaction
                            (t\<lparr>status := TxSuccess, callbackData := CallbackBody p\<rparr>)
                            (transactions w),
                        contributions := save_contribution c' (contributions w) \<rparr>
            in case creditCampaign w2 c' ''mpesa'' ''Campaign updated:'' of
                 Inl e \<Rightarrow>
                   (w2\<lparr>console := console w2 @ [ConsoleError ''MPESA callback error:'']\<rparr>,
                    \<lparr> http_status = 500, resp_body = ResultBody 1 ''Internal server error'' \<rparr>)
               | Inr w3 \<Rightarrow>
                   (w3, \<lparr> http_status = 200, resp_body = ResultBody 0 ''Accepted'' \<rparr>))"
proof (cases "truthy (cb_mpesaReceiptNumber cr)")
  case True
  with assms show ?thesis
    by (simp add: handleMPESACallback_def logTo_def Let_def)
next
  case False
  with assms(5) have "receipt = mpesaReceiptNumber c"
    by simp
  then have "c\<lparr>paymentStatus := PaymentSuccess, mpesaReceiptNumber := receipt\<rparr> =
             c\<lparr>paymentStatus := PaymentSuccess\<rparr>"
    by simp
  with False assms(1-4) show ?thesis
    by (simp add: handleMPESACallback_def logTo_def Let_def)
qed

lemma mpesa_failed:
  assumes "processCallback p = Inr cr" and "\<not> success cr"
    and "findOne_transaction w (checkoutRequestID cr) = Inr (Some t)"
    and "storeString w (resultDescription cr) = Inr message"
  shows "handleMPESACallback w p =
           (let w1 = w\<lparr> console := console w @ [ConsoleLog ''MPESA Callback received:''],
                        transactions :=
                          save_transaction
                            (t\<lparr>status := TxFailed, callbackData := CallbackBody p,
                               errorMessage := message\<rparr>) (transactions w) \<rparr>
            in (case findById_contribution (contributions w) (contributionId t) of
                  None \<Rightarrow> w1
                | Some c \<Rightarrow>
                    w1\<lparr>contributions :=
                         save_contribution (c\<lparr>paymentStatus := PaymentFailed\<rparr>) (contributions w)\<rparr>,
                \<lparr> http_status = 200, resp_body = ResultBody 0 ''Accepted'' \<rparr>))"
  using assms processCallback_failed_receipt [OF assms(1,2)]
  by (simp add: handleMPESACallback_def logTo_def Let_def split: option.splits)

lemma mpesa_failed_cast:
  assumes "processCallback p = Inr cr" and "\<not> success cr"
    and "findOne_transaction w (checkoutRequestID cr) = Inr (Some t)"
    and "storeString w (resultDescription cr) = Inl e"
  shows "handleMPESACallback w p =
           (w\<lparr>console := console w @ [ConsoleLog ''MPESA Callback received:'',
                                        ConsoleError ''MPESA callback error:'']\<rparr>,
            \<lparr> http_status = 500, resp_body = ResultBody 1 ''Internal server error'' \<rparr>)"
  using assms by (simp add: handleMPESACallback_def logTo_def)

lemma mpesa_success_cast:
  assumes "processCallback p = Inr cr" and "success cr"
    and "findOne_transaction w (checkoutRequestID cr) = Inr (Some t)"
    and "findById_contribution (contributions w) (contributionId t) = Some c"
    and "truthy (cb_mpesaReceiptNumber cr)"
    and "storeString w (cb_mpesaReceiptNumber cr) = Inl e"
  shows "handleMPESACallback w p =
           (w\<lparr> console := console w @ [ConsoleLog ''MPESA Callback received:'',
                                         ConsoleError ''MPESA callback error:''],
               transactions :=
                 save_transaction (t\<lparr>status := TxSuccess, callbackData := CallbackBody p\<rparr>)
                   (transactions w) \<rparr>,
            \<lparr> http_status = 500, resp_body = ResultBody 1 ''Internal server error'' \<rparr>)"
  using assms by (simp add: handleMPESACallback_def logTo_def Let_def)

text \<open>
  A credit that the campaign's save rejects: the transaction and the contribution have
  been saved, the campaign is as it was, no event is sent and the answer is 500.
\<close>

lemma mpesa_credit_rejected:
  assumes "processCallback p = Inr cr" and "success cr"
    and "findOne_transaction w (checkoutRequestID cr) = Inr (Some t)"
    and "findById_contribution (contributions w) (contributionId t) = Some c"
    and "(if truthy (cb_mpesaReceiptNumber cr) then storeString w (cb_mpesaReceiptNumber cr)
          else Inr (mpesaReceiptNumber c)) = Inr receipt"
    and g: "findById_campaign (campaigns w) (campaignId c) = Some g"
    and v: "\<not> js_ge (js_add (currentAmount g) (amount c)) (Fin 0)"
  shows "snd (handleMPESACallback w p) =
           \<lparr> http_status = 500, resp_body = ResultBody 1 ''Internal server error'' \<rparr>"
    and "campaigns (fst (handleMPESACallback w p)) = campaigns w"
    and "emitted (fst (handleMPESACallback w p)) = emitted w"
proof -
  let ?c = "c\<lparr>paymentStatus := PaymentSuccess, mpesaReceiptNumber := receipt\<rparr>"
  let ?w = "w\<lparr> console := console w @ [ConsoleLog ''MPESA Callback received:''],
               transactions :=
                 save_transaction (t\<lparr>status := TxSuccess, callbackData := CallbackBody p\<rparr>)
                   (transactions w),
               contributions := save_contribution ?c (contributions w) \<rparr>"
  have "findById_campaign (campaigns ?w) (campaignId ?c) = Some g"
    using g by simp
  from creditCampaign_invalid [OF this, of "''mpesa''" "''Campaign updated:''"] v
  have r: "creditCampaign ?w ?c ''mpesa'' ''Campaign updated:'' = Inl ValidationError"
    by simp
  note h = mpesa_success [OF assms(1-5)]
  show "snd (handleMPESACallback w p) =
           \<lparr> http_status = 500, resp_body = ResultBody 1 ''Internal server error'' \<rparr>"
    and "campaigns (fst (handleMPESACallback w p)) = campaigns w"
    and "emitted (fst (handleMPESACallback w p)) = emitted w"
    using r by (simp_all add: h Let_def)
qed

lemma webhook_parse_error:
  assumes "processWebhook p = Inl e"
  shows "handlePaystackWebhook w p =
           (w\<lparr>console := console w @ [ConsoleLog ''Paystack Webhook received:'',
                                        ConsoleError ''Paystack webhook error:'']\<rparr>,
            \<lparr> http_status = 500, resp_body = StatusBody ''error'' \<rparr>)"
  using assms by (simp add: handlePaystackWebhook_def logTo_def)

lemma webhook_ignored:
  assumes "processWebhook p = Inr wr" and "event wr \<noteq> JStr ''charge.success''"
  shows "handlePaystackWebhook w p =
           (w\<lparr>console := console w @ [ConsoleLog ''Paystack Webhook received:'']\<rparr>,
            \<lparr> http_status = 200, resp_body = StatusBody ''ignored'' \<rparr>)"
  using assms by (simp add: handlePaystackWebhook_def logTo_def)

lemma webhook_unknown:
  assumes "processWebhook p = Inr wr" and "event wr = JStr ''charge.success''"
    and "findOne_transaction w (reference wr) = Inr None"
  shows "handlePaystackWebhook w p =
           (w\<lparr>console := console w @ [ConsoleLog ''Paystack Webhook received:'',
                 ConsoleError ''Transaction not found for reference:'']\<rparr>,
            \<lparr> http_status = 404, resp_body = StatusBody ''transaction not found'' \<rparr>)"
  using assms by (simp add: handlePaystackWebhook_def logTo_def)

lemma webhook_success:
  assumes "processWebhook p = Inr wr" and "event wr = JStr ''charge.success''"
    and "wh_success wr"
    and "findOne_transaction w (reference wr) = Inr (Some t)"
    and "findById_contribution (contributions w) (contributionId t) = Some c"
  shows "handlePaystackWebhook w p =
           (let c' = c\<lparr>paymentStatus := PaymentSuccess\<rparr>;
                w2 = w\<lparr> console := console w @ [ConsoleLog ''Paystack Webhook received:''],
                        transactions :=
                          save_transaction
                            (t\<lparr>status := TxSuccess, callbackData := CallbackBody p\<rparr>)
                            (transactions w),
                        contributions := save_contribution c' (contributions w) \<rparr>
            in case creditCampaign w2 c' ''card'' ''Campaign updated via webhook:'' of
                 Inl e \<Rightarrow>
                   (w2\<lparr>console := console w2 @ [ConsoleError ''Paystack webhook error:'']\<rparr>,
                    \<lparr> http_status = 500, resp_body = StatusBody ''error'' \<rparr>)
               | Inr w3 \<Rightarrow> (w3, \<lparr> http_status = 200, resp_body = StatusBody ''success'' \<rparr>))"
  using assms by (simp add: handlePaystackWebhook_def logTo_def Let_def)

lemma webhook_failed:
  assumes "processWebhook p = Inr wr" and "event wr = JStr ''charge.success''"
    and "\<not> wh_success wr"
    and "findOne_transaction w (reference wr) = Inr (Some t)"
  shows "handlePaystackWebhook w p =
           (let w1 = w\<lparr> console := console w @ [ConsoleLog ''Paystack Webhook received:''],
                        transactions :=
                          save_transaction (t\<lparr>status := TxFailed, callbackData := CallbackBody p\<rparr>)
                            (transactions w) \<rparr>
            in (case findById_contribution (contributions w) (contributionId t) of
                  None \<Rightarrow> w1
                | Some c \<Rightarrow>
                    w1\<lparr>contributions :=
                         save_contribution (c\<lparr>paymentStatus := PaymentFailed\<rparr>) (contributions w)\<rparr>,
                \<lparr> http_status = 200, resp_body = StatusBody ''success'' \<rparr>))"
  using assms by (simp add: handlePaystackWebhook_def logTo_def Let_def split: option.splits)

lemma findOne_transaction_JStr:
  "findOne_transaction w (JStr s) = Inr (find (\<lambda>t. transactionReference t = s) (transactions w))"
  by (simp add: findOne_transaction_def)

lemma verify_unknown:
  assumes "findOne_transaction w (JStr r) = Inr None"
  shows "verifyPaystackPayment w r (Inr v) =
           (w, \<lparr> http_status = 404, resp_body = MessageBody False ''Transaction not found.'' \<rparr>)"
  using assms by (simp add: verifyPaystackPayment_def)

lemma verify_success:
  assumes "vr_status v = VSuccess"
    and "findOne_transaction w (JStr r) = Inr (Some t)"
    and "findById_contribution (contributions w) (contributionId t) = Some c"
  shows "fst (verifyPaystackPayment w r (Inr v)) =
           (let c' = c\<lparr>paymentStatus := PaymentSuccess,
                       transactionId := Some (toString (vr_id v))\<rparr>;
                w2 = w\<lparr> transactions :=
                          save_transaction
                            (t\<lparr>status := TxSuccess, callbackData := Verification v\<rparr>)
                            (transactions w),
                        contributions := save_contribution c' (contributions w) \<rparr>
            in case creditCampaign w2 c' ''card'' ''Campaign updated:'' of
                 Inl e \<Rightarrow> w2\<lparr>console := console w2 @ [ConsoleError ''Verify Paystack payment error:'']\<rparr>
               | Inr w3 \<Rightarrow> w3)"
  using assms by (simp add: verifyPaystackPayment_def logTo_def Let_def split: sum.splits)

lemma verify_failed:
  assumes "vr_status v \<noteq> VSuccess"
    and "findOne_transaction w (JStr r) = Inr (Some t)"
  shows "fst (verifyPaystackPayment w r (Inr v)) =
           (let w1 = w\<lparr> transactions :=
                          save_transaction
                            (t\<lparr>status := TxFailed, callbackData := Verification v,
                               errorMessage := JStr (gateway_response v)\<rparr>) (transactions w) \<rparr>
            in case findById_contribution (contributions w) (contributionId t) of
                 None \<Rightarrow> w1
               | Some c \<Rightarrow>
                   w1\<lparr>contributions :=
                        save_contribution
                          (c\<lparr>paymentStatus := PaymentFailed,
                             transactionId := Some (toString (vr_id v))\<rparr>) (contributions w)\<rparr>)"
  using assms by (simp add: verifyPaystackPayment_def Let_def split: option.splits)

lemmas ledger_defs = world0_def campaign0_def contribution0_def contribution1_def
  transaction0_def transaction1_def user0_def

lemma stkPaid_parsed:
  "processCallback (stkPaid ref) =
     Inr \<lparr> success = True, merchantRequestID = JStr ''29115-34620561-1'',
           checkoutRequestID = JStr ref, resultCode = JNum (Fin 0),
           resultDescription = JStr ''The service request is processed successfully.'',
           cb_amount = JNum (Fin 1000), cb_mpesaReceiptNumber = JStr ''NLJ7RT61SV'',
           transactionDate = Undefined, phoneNumber = Undefined \<rparr>"
  by (simp add: stkPaid_def processCallback_def andThen_def callbackItem_def)

lemma stkCancelled_parsed:
  "processCallback (stkCancelled ref) =
     Inr \<lparr> success = False, merchantRequestID = JStr ''29115-34620561-1'',
           checkoutRequestID = JStr ref, resultCode = JNum (Fin 1032),
           resultDescription = JStr ''Request cancelled by user'',
           cb_amount = Undefined, cb_mpesaReceiptNumber = Undefined,
           transactionDate = Undefined, phoneNumber = Undefined \<rparr>"
  by (simp add: stkCancelled_def processCallback_def andThen_def)

lemma chargeSuccess_parsed:
  "processWebhook (chargeSuccess ref st) =
     Inr \<lparr> event = JStr ''charge.success'', wh_success = (st = ''success''),
           reference = JStr ref, wh_amount = JNum (Fin 25000), wh_status = JStr st,
           paidAt = Undefined, customer = Undefined, authorization = Undefined \<rparr>"
  by (simp add: chargeSuccess_def processWebhook_def andThen_def)

lemma world0_lookups:
  "findOne_transaction world0 (JStr ''ws_CO_1'') = Inr (Some transaction0)"
  "findOne_transaction world0 (JStr ''ps_ref_1'') = Inr (Some transaction1)"
  "findOne_transaction world0 (JStr ''ws_CO_9'') = Inr None"
  "findOne_transaction world0 (JStr ''ps_ref_9'') = Inr None"
  "findById_contribution (contributions world0) 10 = Some contribution0"
  "findById_contribution (contributions world0) 11 = Some contribution1"
  "findById_campaign (campaigns world0) 5 = Some campaign0"
  by (simp_all add: ledger_defs findOne_transaction_def findById_contribution_def
      findById_campaign_def)

lemma ledger_fields:
  "contributionId transaction0 = 10" "contributionId transaction1 = 11"
  "campaignId contribution0 = 5" "campaignId contribution1 = 5"
  "amount contribution0 = Fin 1000" "amount contribution1 = Fin 250"
  "currentAmount campaign0 = Fin 0" "goalAmount campaign0 = Fin 1000"
  "campaign_status campaign0 = Active" "campaign_id campaign0 = 5"
  by (simp_all add: ledger_defs)

text \<open>The sums and the percentages of the examples, in double arithmetic.\<close>

lemma example_sums:
  "js_add (Fin 0) (Fin 1000) = Fin 1000" "js_add (Fin 1000) (Fin 1000) = Fin 2000"
  "js_add (Fin 0) (Fin 250) = Fin 250" "js_add (Fin 250) (Fin 250) = Fin 500"
  "js_add (Fin 1000) (Fin 250) = Fin 1250"
  by code_simp+

lemma example_fl:
  "fl 1000 = Fin 1000" "fl 2000 = Fin 2000" "fl 250 = Fin 250" "fl 500 = Fin 500"
  "fl 1250 = Fin 1250"
  by code_simp+

text \<open>Sums of decimals and of integers beyond \<open>2\<^sup>5\<^sup>3\<close>, as the host computes them.\<close>

lemma example_rounding:
  "fl (1 / 10) = Fin (3602879701896397 / 2 ^ 55)"
  "js_add (fl (1 / 10)) (fl (51 / 5)) = Fin (5798384520239513 / 2 ^ 49)"
  "js_add (Fin (2 ^ 53)) (Fin 1) = Fin (2 ^ 53)"
  "js_add (Fin (2 ^ 53)) (Fin 3) = Fin (2 ^ 53 + 4)"
  by code_simp+

lemma example_percentages:
  "completionPercentage (campaign0\<lparr>currentAmount := Fin 1000\<rparr>) = Fin 100"
  "completionPercentage (campaign0\<lparr>currentAmount := Fin 250\<rparr>) = Fin 25"
  by code_simp+

section \<open>Unknown correlation tokens\<close>



text \<open>
  C9, as stated, fails: a callback for a token the system never issued is answered
  with status 404, which is not an acknowledgement.
\<close>

theorem unknown_token_not_acknowledged_counterexample:
  "findOne_transaction world0 (JStr ''ws_CO_9'') = Inr None
   \<and> checkoutRequestID (projr (processCallback (stkPaid ''ws_CO_9''))) = JStr ''ws_CO_9''
   \<and> \<not> acknowledged (snd (handleMPESACallback world0 (stkPaid ''ws_CO_9'')))"
proof -
  have "handleMPESACallback world0 (stkPaid ''ws_CO_9'') =
          (world0\<lparr>console := console world0 @ [ConsoleLog ''MPESA Callback received:'',
                 ConsoleError ''Transaction not found for CheckoutRequestID:'']\<rparr>,
           \<lparr> http_status = 404, resp_body = ResultBody 1 ''Transaction not found'' \<rparr>)"
    by (rule mpesa_unknown [OF stkPaid_parsed]) (simp add: world0_lookups)
  then show ?thesis
    by (simp add: acknowledged_def stkPaid_parsed world0_lookups)
qed

text \<open>
  C9, amended. When a notification reaches the lookup and the lookup by its correlation
  token finds no stored transaction, the callback handler writes an error line to the
  console and answers the provider with status 404 and a not-found body (result code 1
  for M-Pesa): the notification is rejected, not acknowledged, nothing in the ledger
  changes and no event is sent. Every parsed M-Pesa callback reaches the lookup; a
  Paystack webhook reaches it only when its event is \<open>charge.success\<close>, and with any
  other event it is answered 200 \<open>ignored\<close> without a lookup, whatever its token.
\<close>

theorem unknown_token_logged_and_rejected:
  "(processCallback p = Inr cr
      \<and> findOne_transaction w (checkoutRequestID cr) = Inr None
    \<longrightarrow> handleMPESACallback w p =
          (w\<lparr>console := console w @ [ConsoleLog ''MPESA Callback received:'',
                ConsoleError ''Transaction not found for CheckoutRequestID:'']\<rparr>,
           \<lparr> http_status = 404, resp_body = ResultBody 1 ''Transaction not found'' \<rparr>)
        \<and> \<not> acknowledged (snd (handleMPESACallback w p)))
   \<and> (processWebhook q = Inr wr \<and> event wr = JStr ''charge.success''
      \<and> findOne_transaction w (reference wr) = Inr None
    \<longrightarrow> handlePaystackWebhook w q =
          (w\<lparr>console := console w @ [ConsoleLog ''Paystack Webhook received:'',
                ConsoleError ''Transaction not found for reference:'']\<rparr>,
           \<lparr> http_status = 404, resp_body = StatusBody ''transaction not found'' \<rparr>)
        \<and> \<not> acknowledged (snd (handlePaystackWebhook w q)))
   \<and> (processWebhook q' = Inr wr' \<and> event wr' \<noteq> JStr ''charge.success''
    \<longrightarrow> handlePaystackWebhook w q' =
          (w\<lparr>console := console w @ [ConsoleLog ''Paystack Webhook received:'']\<rparr>,
           \<lparr> http_status = 200, resp_body = StatusBody ''ignored'' \<rparr>)
        \<and> acknowledged (snd (handlePaystackWebhook w q')))"
  by (simp add: mpesa_unknown webhook_unknown webhook_ignored acknowledged_def)

lemma chargeFailed_parsed:
  "processWebhook (chargeFailed ref) =
     Inr \<lparr> event = JStr ''charge.failed'', wh_success = False,
           reference = JStr ref, wh_amount = JNum (Fin 25000), wh_status = JStr ''failed'',
           paidAt = Undefined, customer = Undefined, authorization = Undefined \<rparr>"
  by (simp add: chargeFailed_def processWebhook_def andThen_def)

theorem unknown_token_logged_and_rejected_witness:
  "findOne_transaction world0 (JStr ''ws_CO_9'') = Inr None
   \<and> findOne_transaction world0 (JStr ''ps_ref_9'') = Inr None
   \<and> handleMPESACallback world0 (stkPaid ''ws_CO_9'') =
       (world0\<lparr>console := [ConsoleLog ''MPESA Callback received:'',
                ConsoleError ''Transaction not found for CheckoutRequestID:'']\<rparr>,
        \<lparr> http_status = 404, resp_body = ResultBody 1 ''Transaction not found'' \<rparr>)
   \<and> handlePaystackWebhook world0 (chargeSuccess ''ps_ref_9'' ''success'') =
       (world0\<lparr>console := [ConsoleLog ''Paystack Webhook received:'',
                ConsoleError ''Transaction not found for reference:'']\<rparr>,
        \<lparr> http_status = 404, resp_body = StatusBody ''transaction not found'' \<rparr>)
   \<and> handlePaystackWebhook world0 (chargeFailed ''ps_ref_9'') =
       (world0\<lparr>console := [ConsoleLog ''Paystack Webhook received:'']\<rparr>,
        \<lparr> http_status = 200, resp_body = StatusBody ''ignored'' \<rparr>)"
proof -
  have c: "console world0 = []"
    by (simp add: world0_def)
  show ?thesis
    using unknown_token_logged_and_rejected [of "stkPaid ''ws_CO_9''"
      "projr (processCallback (stkPaid ''ws_CO_9''))" world0
      "chargeSuccess ''ps_ref_9'' ''success''"
      "projr (processWebhook (chargeSuccess ''ps_ref_9'' ''success''))"
      "chargeFailed ''ps_ref_9''" "projr (processWebhook (chargeFailed ''ps_ref_9''))"]
    by (simp add: stkPaid_parsed chargeSuccess_parsed chargeFailed_parsed world0_lookups c)
qed

section \<open>Malformed notifications\<close>













section \<open>Completion is monotonic\<close>

lemma creditCampaign_keeps_completed:
  assumes "findById_campaign (campaigns w) i = Some g" and "campaign_status g = Completed"
    and r: "creditCampaign w c m l = Inr w'"
  shows "\<exists>g'. findById_campaign (campaigns w') i = Some g' \<and> campaign_status g' = Completed"
proof (cases "i = campaignId c")
  case True
  with assms(1) have "findById_campaign (campaigns w) (campaignId c) = Some g"
    by simp
  from creditCampaign_lookup [OF this r] True assms(2) show ?thesis
    by simp
next
  case False
  with assms show ?thesis
    by (simp add: creditCampaign_lookup_other [OF _ r])
qed

text \<open>
  Whatever a handler is given, the campaigns it leaves are either the ones it found or
  the ones left by the crediting block run on a state with the campaigns it found.
\<close>

lemma mpesa_campaigns:
  "campaigns (fst (handleMPESACallback w p)) = campaigns w
   \<or> (\<exists>w2 w3 c m l. campaigns w2 = campaigns w \<and> creditCampaign w2 c m l = Inr w3
         \<and> campaigns (fst (handleMPESACallback w p)) = campaigns w3)"
proof (cases "processCallback p")
  case (Inl e)
  then show ?thesis by (simp add: mpesa_parse_error)
next
  case (Inr cr)
  show ?thesis
  proof (cases "findOne_transaction w (checkoutRequestID cr)")
    case (Inl e)
    with Inr show ?thesis
      by (simp add: handleMPESACallback_def logTo_def)
  next
    case look: (Inr found)
    show ?thesis
    proof (cases found)
      case None
      with Inr look show ?thesis by (simp add: mpesa_unknown)
    next
      case (Some t)
      with look have t: "findOne_transaction w (checkoutRequestID cr) = Inr (Some t)"
        by simp
      show ?thesis
      proof (cases "success cr")
        case False
        show ?thesis
        proof (cases "storeString w (resultDescription cr)")
          case (Inl e)
          from mpesa_failed_cast [OF Inr False t Inl] show ?thesis
            by simp
        next
          case message: (Inr message)
          from mpesa_failed [OF Inr False t message] show ?thesis
            by (simp add: Let_def split: option.splits)
        qed
      next
        case True
        show ?thesis
        proof (cases "findById_contribution (contributions w) (contributionId t)")
          case None
          with Inr True t show ?thesis
            by (simp add: handleMPESACallback_def logTo_def Let_def)
        next
          case (Some c)
          show ?thesis
          proof (cases "if truthy (cb_mpesaReceiptNumber cr)
                        then storeString w (cb_mpesaReceiptNumber cr)
                        else Inr (mpesaReceiptNumber c)")
            case (Inl e)
            then have "truthy (cb_mpesaReceiptNumber cr)"
              and "storeString w (cb_mpesaReceiptNumber cr) = Inl e"
              by (simp_all split: if_splits)
            from mpesa_success_cast [OF Inr True t Some this] show ?thesis
              by simp
          next
            case receipt: (Inr receipt)
            let ?c = "c\<lparr>paymentStatus := PaymentSuccess, mpesaReceiptNumber := receipt\<rparr>"
            let ?w2 = "w\<lparr> console := console w @ [ConsoleLog ''MPESA Callback received:''],
                           transactions :=
                             save_transaction (t\<lparr>status := TxSuccess, callbackData := CallbackBody p\<rparr>)
                               (transactions w),
                           contributions := save_contribution ?c (contributions w) \<rparr>"
            note h = mpesa_success [OF Inr True t Some receipt]
            show ?thesis
            proof (cases "creditCampaign ?w2 ?c ''mpesa'' ''Campaign updated:''")
              case (Inl e)
              with h show ?thesis
                by (simp add: Let_def)
            next
              case credited: (Inr w3)
              have "campaigns ?w2 = campaigns w"
                by simp
              moreover from h credited have "campaigns (fst (handleMPESACallback w p)) = campaigns w3"
                by (simp add: Let_def)
              ultimately show ?thesis
                using credited by blast
            qed
          qed
        qed
      qed
    qed
  qed
qed

lemma webhook_campaigns:
  "campaigns (fst (handlePaystackWebhook w p)) = campaigns w
   \<or> (\<exists>w2 w3 c m l. campaigns w2 = campaigns w \<and> creditCampaign w2 c m l = Inr w3
         \<and> campaigns (fst (handlePaystackWebhook w p)) = campaigns w3)"
proof (cases "processWebhook p")
  case (Inl e)
  then show ?thesis by (simp add: webhook_parse_error)
next
  case (Inr wr)
  show ?thesis
  proof (cases "event wr = JStr ''charge.success''")
    case False
    with Inr show ?thesis
      by (simp add: webhook_ignored)
  next
    case ev: True
    show ?thesis
    proof (cases "findOne_transaction w (reference wr)")
      case (Inl e)
      with Inr ev show ?thesis
        by (simp add: handlePaystackWebhook_def logTo_def)
    next
      case look: (Inr found)
      show ?thesis
      proof (cases found)
        case None
        with Inr ev look show ?thesis by (simp add: webhook_unknown)
      next
        case (Some t)
        with look have t: "findOne_transaction w (reference wr) = Inr (Some t)"
          by simp
        show ?thesis
        proof (cases "wh_success wr")
          case False
          from webhook_failed [OF Inr ev False t] show ?thesis
            by (simp add: Let_def split: option.splits)
        next
          case True
          show ?thesis
          proof (cases "findById_contribution (contributions w) (contributionId t)")
            case None
            with Inr ev True t show ?thesis
              by (simp add: handlePaystackWebhook_def logTo_def Let_def)
          next
            case (Some c)
            let ?c = "c\<lparr>paymentStatus := PaymentSuccess\<rparr>"
            let ?w2 = "w\<lparr> console := console w @ [ConsoleLog ''Paystack Webhook received:''],
                           transactions :=
                             save_transaction (t\<lparr>status := TxSuccess, callbackData := CallbackBody p\<rparr>)
                               (transactions w),
                           contributions := save_contribution ?c (contributions w) \<rparr>"
            note h = webhook_success [OF Inr ev True t Some]
            show ?thesis
            proof (cases "creditCampaign ?w2 ?c ''card'' ''Campaign updated via webhook:''")
              case (Inl e)
              with h show ?thesis
                by (simp add: Let_def)
            next
              case credited: (Inr w3)
              have "campaigns ?w2 = campaigns w"
                by simp
              moreover from h credited
              have "campaigns (fst (handlePaystackWebhook w p)) = campaigns w3"
                by (simp add: Let_def)
              ultimately show ?thesis
                using credited by blast
            qed
          qed
        qed
      qed
    qed
  qed
qed

lemma verify_campaigns:
  "campaigns (fst (verifyPaystackPayment w r v)) = campaigns w
   \<or> (\<exists>w2 w3 c m l. campaigns w2 = campaigns w \<and> creditCampaign w2 c m l = Inr w3
         \<and> campaigns (fst (verifyPaystackPayment w r v)) = campaigns w3)"
proof (cases v)
  case (Inl e)
  then show ?thesis by (simp add: verifyPaystackPayment_def logTo_def)
next
  case (Inr vr)
  show ?thesis
  proof (cases "findOne_transaction w (JStr r)")
    case (Inl e)
    with Inr show ?thesis
      by (simp add: verifyPaystackPayment_def logTo_def)
  next
    case look: (Inr found)
    show ?thesis
    proof (cases found)
      case None
      with Inr look show ?thesis by (simp add: verify_unknown)
    next
      case (Some t)
      with look have t: "findOne_transaction w (JStr r) = Inr (Some t)"
        by simp
      show ?thesis
      proof (cases "vr_status vr = VSuccess")
        case False
        from verify_failed [OF False t] Inr show ?thesis
          by (simp add: Let_def split: option.splits)
      next
        case True
        show ?thesis
        proof (cases "findById_contribution (contributions w) (contributionId t)")
          case None
          with Inr True t show ?thesis
            by (simp add: verifyPaystackPayment_def Let_def)
        next
          case (Some c)
          let ?c = "c\<lparr>paymentStatus := PaymentSuccess, transactionId := Some (toString (vr_id vr))\<rparr>"
          let ?w2 = "w\<lparr> transactions :=
                           save_transaction (t\<lparr>status := TxSuccess, callbackData := Verification vr\<rparr>)
                             (transactions w),
                         contributions := save_contribution ?c (contributions w) \<rparr>"
          note h = verify_success [OF True t Some]
          show ?thesis
          proof (cases "creditCampaign ?w2 ?c ''card'' ''Campaign updated:''")
            case (Inl e)
            with h Inr show ?thesis
              by (simp add: Let_def)
          next
            case credited: (Inr w3)
            have "campaigns ?w2 = campaigns w"
              by simp
            moreover from h credited Inr
            have "campaigns (fst (verifyPaystackPayment w r v)) = campaigns w3"
              by (simp add: Let_def)
            ultimately show ?thesis
              using credited by blast
          qed
        qed
      qed
    qed
  qed
qed

lemma keeps_completed:
  assumes "campaigns w' = campaigns w
           \<or> (\<exists>w2 w3 c m l. campaigns w2 = campaigns w \<and> creditCampaign w2 c m l = Inr w3
                 \<and> campaigns w' = campaigns w3)"
    and "findById_campaign (campaigns w) i = Some g" and "campaign_status g = Completed"
  shows "\<exists>g'. findById_campaign (campaigns w') i = Some g' \<and> campaign_status g' = Completed"
  using assms(1)
proof
  assume "campaigns w' = campaigns w"
  with assms(2,3) show ?thesis by simp
next
  assume "\<exists>w2 w3 c m l. campaigns w2 = campaigns w \<and> creditCampaign w2 c m l = Inr w3
            \<and> campaigns w' = campaigns w3"
  then obtain w2 w3 c m l where a: "campaigns w2 = campaigns w"
    and r: "creditCampaign w2 c m l = Inr w3"
    and b: "campaigns w' = campaigns w3"
    by blast
  from a assms(2) have "findById_campaign (campaigns w2) i = Some g"
    by simp
  from creditCampaign_keeps_completed [OF this assms(3) r] b show ?thesis
    by simp
qed

text \<open>
  C5. Once a campaign is completed it stays completed: whatever the M-Pesa callback,
  the Paystack webhook or the Paystack verification is given, and whatever the outcome,
  the campaign with that id is still there afterwards and still completed.
\<close>

theorem completion_is_monotonic:
  assumes "findById_campaign (campaigns w) i = Some g" and "campaign_status g = Completed"
  shows "(\<exists>g'. findById_campaign (campaigns (fst (handleMPESACallback w p))) i = Some g'
               \<and> campaign_status g' = Completed)
       \<and> (\<exists>g'. findById_campaign (campaigns (fst (handlePaystackWebhook w q))) i = Some g'
               \<and> campaign_status g' = Completed)
       \<and> (\<exists>g'. findById_campaign (campaigns (fst (verifyPaystackPayment w r v))) i = Some g'
               \<and> campaign_status g' = Completed)"
  using keeps_completed [OF mpesa_campaigns assms] keeps_completed [OF webhook_campaigns assms]
    keeps_completed [OF verify_campaigns assms]
  by simp

lemma worldDone_lookups:
  "findOne_transaction worldDone (JStr ''ws_CO_1'') = Inr (Some transaction0)"
  "findOne_transaction worldDone (JStr ''ps_ref_1'') = Inr (Some transaction1)"
  "findById_contribution (contributions worldDone) 10 = Some contribution0"
  "findById_contribution (contributions worldDone) 11 = Some contribution1"
  "findById_campaign (campaigns worldDone) 5 = Some campaignDone"
  by (simp_all add: worldDone_def campaignDone_def ledger_defs findOne_transaction_def
      findById_contribution_def findById_campaign_def)

theorem completion_is_monotonic_witness:
  "findById_campaign (campaigns worldDone) 5 = Some campaignDone
   \<and> campaign_status campaignDone = Completed
   \<and> (\<exists>g'. findById_campaign
               (campaigns (fst (handleMPESACallback worldDone (stkCancelled ''ws_CO_1'')))) 5 = Some g'
            \<and> campaign_status g' = Completed)
   \<and> (\<exists>g'. findById_campaign
               (campaigns (fst (handlePaystackWebhook worldDone
                  (chargeSuccess ''ps_ref_1'' ''success'')))) 5 = Some g'
            \<and> campaign_status g' = Completed)
   \<and> (\<exists>g'. findById_campaign
               (campaigns (fst (verifyPaystackPayment worldDone ''ps_ref_1''
                  (Inr (verification0 VSuccess))))) 5 = Some g'
            \<and> campaign_status g' = Completed)"
proof -
  have a: "findById_campaign (campaigns worldDone) 5 = Some campaignDone"
    by (rule worldDone_lookups)
  have b: "campaign_status campaignDone = Completed"
    by (simp add: campaignDone_def)
  show ?thesis
    using a b completion_is_monotonic [OF a b, of "stkCancelled ''ws_CO_1''"
        "chargeSuccess ''ps_ref_1'' ''success''" "''ps_ref_1''" "Inr (verification0 VSuccess)"]
    by simp
qed

section \<open>A failed outcome\<close>

text \<open>
  Saving a new version of a stored document, in a collection whose ids are distinct,
  relates the old and the new collection document by document.
\<close>

lemma save_list_all2:
  assumes d: "distinct (map f xs)" and m: "x \<in> set xs" and k: "f x' = f x"
    and r: "R x x'" and refl: "\<And>y. R y y"
  shows "list_all2 R xs (map (\<lambda>y. if f y = f x' then x' else y) xs)"
proof -
  have inj: "inj_on f (set xs)"
    using d by (simp add: distinct_map)
  have "\<forall>y\<in>set xs. R y (if f y = f x' then x' else y)"
  proof
    fix y
    assume y: "y \<in> set xs"
    show "R y (if f y = f x' then x' else y)"
    proof (cases "f y = f x'")
      case True
      with k have "f y = f x" by simp
      with inj y m have "y = x" by (simp add: inj_on_eq_iff)
      with True r show ?thesis by simp
    next
      case False
      then show ?thesis by (simp add: refl)
    qed
  qed
  then show ?thesis
    by (simp add: list_all2_map2 list_all2_same)
qed

lemma save_transaction_frame:
  assumes "distinct (map transaction_id ts)" and "findOne_transaction w key = Inr (Some t)" and "ts = transactions w"
  shows "list_all2 transaction_frame ts
           (save_transaction (t\<lparr>status := s, callbackData := cb, errorMessage := e\<rparr>) ts)"
proof -
  from findOne_transaction_mem [OF assms(2)] assms(3) have "t \<in> set ts"
    by simp
  with assms(1) show ?thesis
    unfolding save_transaction_def
    by (rule save_list_all2) (simp_all add: transaction_frame_def)
qed

lemma save_transaction_frame':
  assumes "distinct (map transaction_id ts)" and "findOne_transaction w key = Inr (Some t)" and "ts = transactions w"
  shows "list_all2 transaction_frame ts
           (save_transaction (t\<lparr>status := s, callbackData := cb\<rparr>) ts)"
proof -
  from findOne_transaction_mem [OF assms(2)] assms(3) have "t \<in> set ts"
    by simp
  with assms(1) show ?thesis
    unfolding save_transaction_def
    by (rule save_list_all2) (simp_all add: transaction_frame_def)
qed

lemma save_contribution_status_frame:
  assumes "distinct (map contribution_id cs)" and "findById_contribution cs i = Some c"
  shows "list_all2 contribution_status_frame cs
           (save_contribution (c\<lparr>paymentStatus := s\<rparr>) cs)"
  unfolding save_contribution_def
  by (rule save_list_all2 [OF assms(1) findById_contribution_mem [OF assms(2)]])
    (simp_all add: contribution_status_frame_def)

lemma save_contribution_frame:
  assumes "distinct (map contribution_id cs)" and "findById_contribution cs i = Some c"
  shows "list_all2 contribution_frame cs
           (save_contribution (c\<lparr>paymentStatus := s, transactionId := x\<rparr>) cs)"
  unfolding save_contribution_def
  by (rule save_list_all2 [OF assms(1) findById_contribution_mem [OF assms(2)]])
    (simp_all add: contribution_frame_def)

lemma frames_refl:
  "list_all2 transaction_frame ts ts"
  "list_all2 contribution_status_frame cs cs" "list_all2 contribution_frame cs cs"
  by (simp_all add: list_all2_same transaction_frame_def contribution_status_frame_def
      contribution_frame_def)

text \<open>
  C2, as stated, fails for the Paystack verification: on a failed outcome it also
  stores the gateway's transaction id in the contribution.
\<close>

theorem failed_verification_sets_transactionId_counterexample:
  "vr_status (verification0 VFailed) \<noteq> VSuccess
   \<and> map transactionId (contributions world0) = [None, None]
   \<and> map transactionId
        (contributions (fst (verifyPaystackPayment world0 ''ps_ref_1'' (Inr (verification0 VFailed)))))
       = [None, Some ''7421'']
   \<and> \<not> list_all2 contribution_status_frame (contributions world0)
        (contributions (fst (verifyPaystackPayment world0 ''ps_ref_1'' (Inr (verification0 VFailed)))))"
proof -
  have c: "contributions (fst (verifyPaystackPayment world0 ''ps_ref_1'' (Inr (verification0 VFailed))))
           = [contribution0,
              contribution1\<lparr>paymentStatus := PaymentFailed, transactionId := Some ''7421''\<rparr>]"
    using verify_failed [of "verification0 VFailed" world0 "''ps_ref_1''" transaction1]
    by (simp add: world0_lookups ledger_fields Let_def)
      (simp add: verification0_def ledger_defs save_contribution_def toString_def decimal.simps)
  show ?thesis
    unfolding c
    by (simp add: verification0_def ledger_defs contribution_status_frame_def)
qed

text \<open>
  C2, amended. A reconciliation with a failed outcome, on a stored transaction, leaves
  every campaign unchanged and sends no event. It changes only the status, the callback
  payload and the error message of transactions, and the payment status of
  contributions; the Paystack verification also stores the gateway's transaction id in
  the contribution.
\<close>

theorem failed_outcome_frame:
  assumes "distinct (map transaction_id (transactions w))"
    and "distinct (map contribution_id (contributions w))"
  shows "(processCallback p = Inr cr \<and> \<not> success cr
            \<and> findOne_transaction w (checkoutRequestID cr) = Inr (Some t1)
          \<longrightarrow> campaigns (fst (handleMPESACallback w p)) = campaigns w
              \<and> emitted (fst (handleMPESACallback w p)) = emitted w
              \<and> list_all2 transaction_frame (transactions w)
                   (transactions (fst (handleMPESACallback w p)))
              \<and> list_all2 contribution_status_frame (contributions w)
                   (contributions (fst (handleMPESACallback w p))))
       \<and> (processWebhook q = Inr wr \<and> event wr = JStr ''charge.success'' \<and> \<not> wh_success wr
            \<and> findOne_transaction w (reference wr) = Inr (Some t2)
          \<longrightarrow> campaigns (fst (handlePaystackWebhook w q)) = campaigns w
              \<and> emitted (fst (handlePaystackWebhook w q)) = emitted w
              \<and> list_all2 transaction_frame (transactions w)
                   (transactions (fst (handlePaystackWebhook w q)))
              \<and> list_all2 contribution_status_frame (contributions w)
                   (contributions (fst (handlePaystackWebhook w q))))
       \<and> (vr_status v \<noteq> VSuccess
            \<and> findOne_transaction w (JStr r) = Inr (Some t3)
          \<longrightarrow> campaigns (fst (verifyPaystackPayment w r (Inr v))) = campaigns w
              \<and> emitted (fst (verifyPaystackPayment w r (Inr v))) = emitted w
              \<and> list_all2 transaction_frame (transactions w)
                   (transactions (fst (verifyPaystackPayment w r (Inr v))))
              \<and> list_all2 contribution_frame (contributions w)
                   (contributions (fst (verifyPaystackPayment w r (Inr v)))))"
proof (intro conjI impI)
  assume a: "processCallback p = Inr cr \<and> \<not> success cr
            \<and> findOne_transaction w (checkoutRequestID cr) = Inr (Some t1)"
  then have p: "processCallback p = Inr cr" and f: "\<not> success cr"
    and t: "findOne_transaction w (checkoutRequestID cr) = Inr (Some t1)"
    by simp_all
  have "campaigns (fst (handleMPESACallback w p)) = campaigns w
      \<and> emitted (fst (handleMPESACallback w p)) = emitted w
      \<and> list_all2 transaction_frame (transactions w) (transactions (fst (handleMPESACallback w p)))
      \<and> list_all2 contribution_status_frame (contributions w)
           (contributions (fst (handleMPESACallback w p)))"
  proof (cases "storeString w (resultDescription cr)")
    case (Inl e)
    from mpesa_failed_cast [OF p f t Inl] show ?thesis
      by (simp add: frames_refl)
  next
    case (Inr message)
    note h = mpesa_failed [OF p f t Inr]
    have "campaigns (fst (handleMPESACallback w p)) = campaigns w"
      and "emitted (fst (handleMPESACallback w p)) = emitted w"
      by (simp_all add: h Let_def split: option.splits)
    moreover have "list_all2 transaction_frame (transactions w)
                     (transactions (fst (handleMPESACallback w p)))"
      using save_transaction_frame [OF assms(1) t refl]
      by (simp add: h Let_def split: option.splits)
    moreover have "list_all2 contribution_status_frame (contributions w)
                     (contributions (fst (handleMPESACallback w p)))"
      using save_contribution_status_frame [OF assms(2)]
      by (simp add: h Let_def frames_refl split: option.splits)
    ultimately show ?thesis
      by simp
  qed
  then show "campaigns (fst (handleMPESACallback w p)) = campaigns w"
    and "emitted (fst (handleMPESACallback w p)) = emitted w"
    and "list_all2 transaction_frame (transactions w) (transactions (fst (handleMPESACallback w p)))"
    and "list_all2 contribution_status_frame (contributions w)
          (contributions (fst (handleMPESACallback w p)))"
    by simp_all
next
  assume a: "processWebhook q = Inr wr \<and> event wr = JStr ''charge.success'' \<and> \<not> wh_success wr
            \<and> findOne_transaction w (reference wr) = Inr (Some t2)"
  then have h: "handlePaystackWebhook w q =
           (let w1 = w\<lparr> console := console w @ [ConsoleLog ''Paystack Webhook received:''],
                        transactions :=
                          save_transaction (t2\<lparr>status := TxFailed, callbackData := CallbackBody q\<rparr>)
                            (transactions w) \<rparr>
            in (case findById_contribution (contributions w) (contributionId t2) of
                  None \<Rightarrow> w1
                | Some c \<Rightarrow>
                    w1\<lparr>contributions :=
                         save_contribution (c\<lparr>paymentStatus := PaymentFailed\<rparr>) (contributions w)\<rparr>,
                \<lparr> http_status = 200, resp_body = StatusBody ''success'' \<rparr>))"
    by (simp add: webhook_failed)
  from a have t: "findOne_transaction w (reference wr) = Inr (Some t2)"
    by simp
  show "campaigns (fst (handlePaystackWebhook w q)) = campaigns w"
    and "emitted (fst (handlePaystackWebhook w q)) = emitted w"
    by (simp_all add: h Let_def split: option.splits)
  show "list_all2 transaction_frame (transactions w) (transactions (fst (handlePaystackWebhook w q)))"
    using save_transaction_frame' [OF assms(1) t refl]
    by (simp add: h Let_def split: option.splits)
  show "list_all2 contribution_status_frame (contributions w)
          (contributions (fst (handlePaystackWebhook w q)))"
    using save_contribution_status_frame [OF assms(2)]
    by (simp add: h Let_def frames_refl split: option.splits)
next
  assume a: "vr_status v \<noteq> VSuccess \<and> findOne_transaction w (JStr r) = Inr (Some t3)"
  then have f: "vr_status v \<noteq> VSuccess"
    and t: "findOne_transaction w (JStr r) = Inr (Some t3)"
    by simp_all
  note h = verify_failed [OF f t]
  show "campaigns (fst (verifyPaystackPayment w r (Inr v))) = campaigns w"
    and "emitted (fst (verifyPaystackPayment w r (Inr v))) = emitted w"
    by (simp_all add: h Let_def split: option.splits)
  show "list_all2 transaction_frame (transactions w)
          (transactions (fst (verifyPaystackPayment w r (Inr v))))"
    using save_transaction_frame [OF assms(1) t refl]
    by (simp add: h Let_def split: option.splits)
  show "list_all2 contribution_frame (contributions w)
          (contributions (fst (verifyPaystackPayment w r (Inr v))))"
    using save_contribution_frame [OF assms(2)]
    by (simp add: h Let_def frames_refl split: option.splits)
qed

theorem failed_outcome_frame_witness:
  "distinct (map transaction_id (transactions world0))
   \<and> distinct (map contribution_id (contributions world0))
   \<and> \<not> success (projr (processCallback (stkCancelled ''ws_CO_1'')))
   \<and> campaigns (fst (handleMPESACallback world0 (stkCancelled ''ws_CO_1''))) = campaigns world0
   \<and> emitted (fst (handleMPESACallback world0 (stkCancelled ''ws_CO_1''))) = emitted world0
   \<and> list_all2 transaction_frame (transactions world0)
        (transactions (fst (handleMPESACallback world0 (stkCancelled ''ws_CO_1''))))
   \<and> list_all2 contribution_status_frame (contributions world0)
        (contributions (fst (handleMPESACallback world0 (stkCancelled ''ws_CO_1''))))
   \<and> campaigns (fst (handlePaystackWebhook world0 (chargeSuccess ''ps_ref_1'' ''failed'')))
       = campaigns world0
   \<and> list_all2 contribution_status_frame (contributions world0)
        (contributions (fst (handlePaystackWebhook world0 (chargeSuccess ''ps_ref_1'' ''failed''))))
   \<and> campaigns (fst (verifyPaystackPayment world0 ''ps_ref_1'' (Inr (verification0 VFailed))))
       = campaigns world0
   \<and> emitted (fst (verifyPaystackPayment world0 ''ps_ref_1'' (Inr (verification0 VFailed))))
       = emitted world0
   \<and> list_all2 contribution_frame (contributions world0)
        (contributions (fst (verifyPaystackPayment world0 ''ps_ref_1'' (Inr (verification0 VFailed)))))"
proof -
  have d1: "distinct (map transaction_id (transactions world0))"
    by (simp add: ledger_defs)
  have d2: "distinct (map contribution_id (contributions world0))"
    by (simp add: ledger_defs)
  have v: "vr_status (verification0 VFailed) \<noteq> VSuccess"
    by (simp add: verification0_def)
  show ?thesis
    using d1 d2 failed_outcome_frame [OF d1 d2, where p = "stkCancelled ''ws_CO_1''"
        and cr = "projr (processCallback (stkCancelled ''ws_CO_1''))"
        and ?t1.0 = transaction0
        and q = "chargeSuccess ''ps_ref_1'' ''failed''"
        and wr = "projr (processWebhook (chargeSuccess ''ps_ref_1'' ''failed''))"
        and ?t2.0 = transaction1
        and v = "verification0 VFailed" and r = "''ps_ref_1''" and ?t3.0 = transaction1]
    by (simp add: stkCancelled_parsed chargeSuccess_parsed world0_lookups v)
qed

section \<open>Signs in double arithmetic\<close>

lemma round_half_even_nonneg: "0 \<le> y \<Longrightarrow> 0 \<le> round_half_even y"
proof -
  assume "0 \<le> y"
  then have "0 \<le> \<lfloor>y\<rfloor>"
    by simp
  then show ?thesis
    by (simp add: round_half_even_def Let_def)
qed

lemma fl_nonneg:
  assumes "0 \<le> x"
  shows "fl x = PInf \<or> (\<exists>r. fl x = Fin r \<and> 0 \<le> r)"
proof (cases "x = 0")
  case True
  then show ?thesis by (simp add: fl_def)
next
  case False
  with assms have x: "0 < x" by simp
  define q where "q = max (ilog2 \<bar>x\<bar>) (- 1022) - 52"
  define r where "r = of_int (round_half_even (x / pow2 q)) * pow2 q"
  have "0 \<le> x / pow2 q"
    using x pow2_pos [of q] by simp
  then have "0 \<le> round_half_even (x / pow2 q)"
    by (rule round_half_even_nonneg)
  then have "0 \<le> r"
    using pow2_pos [of q] by (simp add: r_def)
  moreover have "fl x = (if pow2 1024 \<le> \<bar>r\<bar> then PInf else Fin r)"
    using x by (simp add: fl_def Let_def q_def r_def)
  ultimately show ?thesis
    by simp
qed

lemma js_add_nonneg:
  assumes "js_ge x (Fin 0)" and "js_ge y (Fin 0)"
  shows "js_ge (js_add x y) (Fin 0)"
proof (cases x)
  case (Fin a)
  show ?thesis
  proof (cases y)
    case y: (Fin b)
    from assms Fin y have "0 \<le> a + b"
      by (simp add: js_ge_def)
    from fl_nonneg [OF this] Fin y show ?thesis
      by (auto simp: js_ge_def)
  qed (use assms Fin in \<open>simp_all add: js_ge_def\<close>)
next
  case PInf
  with assms show ?thesis
    by (cases y) (simp_all add: js_ge_def)
qed (use assms in \<open>simp_all add: js_ge_def\<close>)

section \<open>Every successful reconciliation credits the campaign\<close>

text \<open>
  After the crediting block has run for a saved transaction and contribution, the
  three lookups of the next call find the saved documents and the credited campaign.
\<close>

lemma settled_lookups:
  assumes t: "findOne_transaction w key = Inr (Some t)"
    and c: "findById_contribution (contributions w) (contributionId t) = Some c"
    and g: "findById_campaign (campaigns w) (campaignId c) = Some g"
    and t': "transaction_id t' = transaction_id t"
            "transactionReference t' = transactionReference t"
            "contributionId t' = contributionId t"
    and c': "contribution_id c' = contribution_id c" "campaignId c' = campaignId c"
            "amount c' = amount c"
    and w2: "transactions w2 = save_transaction t' (transactions w)"
            "contributions w2 = save_contribution c' (contributions w)"
            "campaigns w2 = campaigns w" "castFilter w2 = castFilter w"
    and r: "creditCampaign w2 c' m l = Inr w3"
  shows "findOne_transaction w3 key = Inr (Some t')"
    and "findById_contribution (contributions w3) (contributionId t') = Some c'"
    and "\<exists>g'. findById_campaign (campaigns w3) (campaignId c') = Some g'
              \<and> currentAmount g' = js_add (currentAmount g) (amount c)"
proof -
  note f = creditCampaign_frame [OF r]
  show "findOne_transaction w3 key = Inr (Some t')"
    by (rule findOne_transaction_save [OF t t'(1,2)]) (simp_all add: f w2)
  have "contribution_id c = contributionId t"
    using c by (rule findById_contribution_id)
  then show "findById_contribution (contributions w3) (contributionId t') = Some c'"
    using c c' t' by (simp add: f w2 findById_contribution_save)
  have "findById_campaign (campaigns w2) (campaignId c') = Some g"
    using g c' w2 by simp
  from creditCampaign_lookup [OF this r] c'
  show "\<exists>g'. findById_campaign (campaigns w3) (campaignId c') = Some g'
              \<and> currentAmount g' = js_add (currentAmount g) (amount c)"
    by simp
qed

lemma mpesa_success_step:
  assumes p: "processCallback p = Inr cr" and s: "success cr"
    and t: "findOne_transaction w (checkoutRequestID cr) = Inr (Some t)"
    and c: "findById_contribution (contributions w) (contributionId t) = Some c"
    and g: "findById_campaign (campaigns w) (campaignId c) = Some g"
    and st: "truthy (cb_mpesaReceiptNumber cr) \<longrightarrow> storable w (cb_mpesaReceiptNumber cr)"
    and v: "js_ge (js_add (currentAmount g) (amount c)) (Fin 0)"
  shows "\<exists>t' c' g'.
           findOne_transaction (fst (handleMPESACallback w p)) (checkoutRequestID cr) = Inr (Some t')
         \<and> findById_contribution (contributions (fst (handleMPESACallback w p))) (contributionId t') = Some c'
         \<and> findById_campaign (campaigns (fst (handleMPESACallback w p))) (campaignId c') = Some g'
         \<and> campaignId c' = campaignId c \<and> amount c' = amount c
         \<and> currentAmount g' = js_add (currentAmount g) (amount c)
         \<and> castString (fst (handleMPESACallback w p)) = castString w"
proof -
  from st obtain receipt where
    receipt: "(if truthy (cb_mpesaReceiptNumber cr) then storeString w (cb_mpesaReceiptNumber cr)
               else Inr (mpesaReceiptNumber c)) = Inr receipt"
  proof (cases "truthy (cb_mpesaReceiptNumber cr)")
    case True
    with st obtain x where "storeString w (cb_mpesaReceiptNumber cr) = Inr x"
      by (cases "storeString w (cb_mpesaReceiptNumber cr)") (auto simp: storable_def)
    with True that show ?thesis
      by simp
  next
    case False
    with that show ?thesis
      by simp
  qed
  let ?t = "t\<lparr>status := TxSuccess, callbackData := CallbackBody p\<rparr>"
  let ?c = "c\<lparr>paymentStatus := PaymentSuccess, mpesaReceiptNumber := receipt\<rparr>"
  let ?w = "w\<lparr> console := console w @ [ConsoleLog ''MPESA Callback received:''],
               transactions := save_transaction ?t (transactions w),
               contributions := save_contribution ?c (contributions w) \<rparr>"
  have "findById_campaign (campaigns ?w) (campaignId ?c) = Some g"
    using g by simp
  from creditCampaign_valid [OF this, of "''mpesa''" "''Campaign updated:''"] v
  obtain w3 where r: "creditCampaign ?w ?c ''mpesa'' ''Campaign updated:'' = Inr w3"
    by auto
  have h: "fst (handleMPESACallback w p) = w3"
    using mpesa_success [OF p s t c receipt] r by (simp add: Let_def)
  have "findOne_transaction w3 (checkoutRequestID cr) = Inr (Some ?t)"
    and "findById_contribution (contributions w3) (contributionId ?t) = Some ?c"
    and "\<exists>g'. findById_campaign (campaigns w3) (campaignId ?c) = Some g'
              \<and> currentAmount g' = js_add (currentAmount g) (amount c)"
    by (rule settled_lookups [OF t c g _ _ _ _ _ _ _ _ _ _ r]; simp)+
  moreover have "castString w3 = castString w"
    using creditCampaign_frame(6) [OF r] by simp
  ultimately show ?thesis
    unfolding h by (intro exI [of _ ?t] exI [of _ ?c]) auto
qed

lemma webhook_success_step:
  assumes p: "processWebhook p = Inr wr" and ev: "event wr = JStr ''charge.success''"
    and s: "wh_success wr"
    and t: "findOne_transaction w (reference wr) = Inr (Some t)"
    and c: "findById_contribution (contributions w) (contributionId t) = Some c"
    and g: "findById_campaign (campaigns w) (campaignId c) = Some g"
    and v: "js_ge (js_add (currentAmount g) (amount c)) (Fin 0)"
  shows "\<exists>t' c' g'.
           findOne_transaction (fst (handlePaystackWebhook w p)) (reference wr) = Inr (Some t')
         \<and> findById_contribution (contributions (fst (handlePaystackWebhook w p))) (contributionId t') = Some c'
         \<and> findById_campaign (campaigns (fst (handlePaystackWebhook w p))) (campaignId c') = Some g'
         \<and> campaignId c' = campaignId c \<and> amount c' = amount c
         \<and> currentAmount g' = js_add (currentAmount g) (amount c)"
proof -
  let ?t = "t\<lparr>status := TxSuccess, callbackData := CallbackBody p\<rparr>"
  let ?c = "c\<lparr>paymentStatus := PaymentSuccess\<rparr>"
  let ?w = "w\<lparr> console := console w @ [ConsoleLog ''Paystack Webhook received:''],
               transactions := save_transaction ?t (transactions w),
               contributions := save_contribution ?c (contributions w) \<rparr>"
  have "findById_campaign (campaigns ?w) (campaignId ?c) = Some g"
    using g by simp
  from creditCampaign_valid [OF this, of "''card''" "''Campaign updated via webhook:''"] v
  obtain w3 where r: "creditCampaign ?w ?c ''card'' ''Campaign updated via webhook:'' = Inr w3"
    by auto
  have h: "fst (handlePaystackWebhook w p) = w3"
    using webhook_success [OF p ev s t c] r by (simp add: Let_def)
  have "findOne_transaction w3 (reference wr) = Inr (Some ?t)"
    and "findById_contribution (contributions w3) (contributionId ?t) = Some ?c"
    and "\<exists>g'. findById_campaign (campaigns w3) (campaignId ?c) = Some g'
              \<and> currentAmount g' = js_add (currentAmount g) (amount c)"
    by (rule settled_lookups [OF t c g _ _ _ _ _ _ _ _ _ _ r]; simp)+
  then show ?thesis
    unfolding h by (intro exI [of _ ?t] exI [of _ ?c]) auto
qed

lemma verify_success_step:
  assumes s: "vr_status v = VSuccess"
    and t: "findOne_transaction w (JStr r) = Inr (Some t)"
    and c: "findById_contribution (contributions w) (contributionId t) = Some c"
    and g: "findById_campaign (campaigns w) (campaignId c) = Some g"
    and v: "js_ge (js_add (currentAmount g) (amount c)) (Fin 0)"
  shows "\<exists>t' c' g'.
           findOne_transaction (fst (verifyPaystackPayment w r (Inr v))) (JStr r) = Inr (Some t')
         \<and> findById_contribution (contributions (fst (verifyPaystackPayment w r (Inr v)))) (contributionId t') = Some c'
         \<and> findById_campaign (campaigns (fst (verifyPaystackPayment w r (Inr v)))) (campaignId c') = Some g'
         \<and> campaignId c' = campaignId c \<and> amount c' = amount c
         \<and> currentAmount g' = js_add (currentAmount g) (amount c)"
proof -
  let ?t = "t\<lparr>status := TxSuccess, callbackData := Verification v\<rparr>"
  let ?c = "c\<lparr>paymentStatus := PaymentSuccess, transactionId := Some (toString (vr_id v))\<rparr>"
  let ?w = "w\<lparr> transactions := save_transaction ?t (transactions w),
               contributions := save_contribution ?c (contributions w) \<rparr>"
  have "findById_campaign (campaigns ?w) (campaignId ?c) = Some g"
    using g by simp
  from creditCampaign_valid [OF this, of "''card''" "''Campaign updated:''"] v
  obtain w3 where r: "creditCampaign ?w ?c ''card'' ''Campaign updated:'' = Inr w3"
    by auto
  have h: "fst (verifyPaystackPayment w r (Inr v)) = w3"
    using verify_success [OF s t c] r by (simp add: Let_def)
  have "findOne_transaction w3 (JStr r) = Inr (Some ?t)"
    and "findById_contribution (contributions w3) (contributionId ?t) = Some ?c"
    and "\<exists>g'. findById_campaign (campaigns w3) (campaignId ?c) = Some g'
              \<and> currentAmount g' = js_add (currentAmount g) (amount c)"
    by (rule settled_lookups [OF t c g _ _ _ _ _ _ _ _ _ _ r]; simp)+
  then show ?thesis
    unfolding h by (intro exI [of _ ?t] exI [of _ ?c]) auto
qed

text \<open>
  C1, as stated, fails: the same successful callback delivered twice credits the
  campaign twice. One delivery takes the accumulated amount from 0 to 1000, a second
  one to 2000.
\<close>

theorem duplicate_callback_credits_twice_counterexample:
  "accumulated world0 5 = Some (Fin 0)
   \<and> accumulated (fst (handleMPESACallback world0 (stkPaid ''ws_CO_1''))) 5 = Some (Fin 1000)
   \<and> accumulated (fst (handleMPESACallback (fst (handleMPESACallback world0 (stkPaid ''ws_CO_1'')))
                         (stkPaid ''ws_CO_1''))) 5 = Some (Fin 2000)"
  by code_simp

text \<open>
  C1, amended. A reconciliation with a success outcome, for a stored transaction whose
  contribution and campaign exist, adds the contribution's amount to the campaign's
  accumulated amount (in double arithmetic) on each invocation that reaches the credit
  and whose credited total the campaign's save accepts: there is no check of the
  transaction's earlier status, so a second invocation with the same correlation token
  adds the amount a second time. The credit is reached unless a save before it throws,
  which for the M-Pesa callback happens when the receipt number cannot be stored as a
  string; the save of the campaign accepts the total when the accumulated amount and
  the contribution's amount are not negative and not NaN, as the schemas require of
  stored documents.
\<close>

theorem every_successful_call_credits:
  "(processCallback p = Inr cr \<and> success cr
      \<and> findOne_transaction w (checkoutRequestID cr) = Inr (Some t1)
      \<and> findById_contribution (contributions w) (contributionId t1) = Some c1
      \<and> findById_campaign (campaigns w) (campaignId c1) = Some g1
      \<and> (truthy (cb_mpesaReceiptNumber cr) \<longrightarrow> storable w (cb_mpesaReceiptNumber cr))
      \<and> js_ge (currentAmount g1) (Fin 0) \<and> js_ge (amount c1) (Fin 0)
    \<longrightarrow> accumulated (fst (handleMPESACallback w p)) (campaignId c1)
          = Some (js_add (currentAmount g1) (amount c1))
        \<and> accumulated (fst (handleMPESACallback (fst (handleMPESACallback w p)) p)) (campaignId c1)
          = Some (js_add (js_add (currentAmount g1) (amount c1)) (amount c1)))
   \<and> (processWebhook q = Inr wr \<and> event wr = JStr ''charge.success'' \<and> wh_success wr
      \<and> findOne_transaction w (reference wr) = Inr (Some t2)
      \<and> findById_contribution (contributions w) (contributionId t2) = Some c2
      \<and> findById_campaign (campaigns w) (campaignId c2) = Some g2
      \<and> js_ge (currentAmount g2) (Fin 0) \<and> js_ge (amount c2) (Fin 0)
    \<longrightarrow> accumulated (fst (handlePaystackWebhook w q)) (campaignId c2)
          = Some (js_add (currentAmount g2) (amount c2))
        \<and> accumulated (fst (handlePaystackWebhook (fst (handlePaystackWebhook w q)) q)) (campaignId c2)
          = Some (js_add (js_add (currentAmount g2) (amount c2)) (amount c2)))
   \<and> (vr_status v = VSuccess
      \<and> findOne_transaction w (JStr r) = Inr (Some t3)
      \<and> findById_contribution (contributions w) (contributionId t3) = Some c3
      \<and> findById_campaign (campaigns w) (campaignId c3) = Some g3
      \<and> js_ge (currentAmount g3) (Fin 0) \<and> js_ge (amount c3) (Fin 0)
    \<longrightarrow> accumulated (fst (verifyPaystackPayment w r (Inr v))) (campaignId c3)
          = Some (js_add (currentAmount g3) (amount c3))
        \<and> accumulated (fst (verifyPaystackPayment (fst (verifyPaystackPayment w r (Inr v))) r (Inr v)))
            (campaignId c3)
          = Some (js_add (js_add (currentAmount g3) (amount c3)) (amount c3)))"
proof (intro conjI impI)
  assume a: "processCallback p = Inr cr \<and> success cr
      \<and> findOne_transaction w (checkoutRequestID cr) = Inr (Some t1)
      \<and> findById_contribution (contributions w) (contributionId t1) = Some c1
      \<and> findById_campaign (campaigns w) (campaignId c1) = Some g1
      \<and> (truthy (cb_mpesaReceiptNumber cr) \<longrightarrow> storable w (cb_mpesaReceiptNumber cr))
      \<and> js_ge (currentAmount g1) (Fin 0) \<and> js_ge (amount c1) (Fin 0)"
  then have p: "processCallback p = Inr cr" and s: "success cr"
    and t: "findOne_transaction w (checkoutRequestID cr) = Inr (Some t1)"
    and c: "findById_contribution (contributions w) (contributionId t1) = Some c1"
    and g: "findById_campaign (campaigns w) (campaignId c1) = Some g1"
    and st: "truthy (cb_mpesaReceiptNumber cr) \<longrightarrow> storable w (cb_mpesaReceiptNumber cr)"
    and n: "js_ge (currentAmount g1) (Fin 0)" "js_ge (amount c1) (Fin 0)"
    by simp_all
  have v1: "js_ge (js_add (currentAmount g1) (amount c1)) (Fin 0)"
    using n by (rule js_add_nonneg)
  have v2: "js_ge (js_add (js_add (currentAmount g1) (amount c1)) (amount c1)) (Fin 0)"
    using v1 n(2) by (rule js_add_nonneg)
  let ?w = "fst (handleMPESACallback w p)"
  from mpesa_success_step [OF p s t c g st v1]
  obtain t' c' g' where
    t': "findOne_transaction ?w (checkoutRequestID cr) = Inr (Some t')"
    and c': "findById_contribution (contributions ?w) (contributionId t') = Some c'"
    and g': "findById_campaign (campaigns ?w) (campaignId c') = Some g'"
    and e: "campaignId c' = campaignId c1" "amount c' = amount c1"
           "currentAmount g' = js_add (currentAmount g1) (amount c1)"
    and k: "castString ?w = castString w"
    by auto
  from g' e show "accumulated ?w (campaignId c1) = Some (js_add (currentAmount g1) (amount c1))"
    by (simp add: accumulated_def)
  have st': "truthy (cb_mpesaReceiptNumber cr) \<longrightarrow> storable ?w (cb_mpesaReceiptNumber cr)"
    using st storeString_cong [OF k] by (simp add: storable_def)
  have v': "js_ge (js_add (currentAmount g') (amount c')) (Fin 0)"
    using v2 e by simp
  from mpesa_success_step [OF p s t' c' g' st' v'] e
  show "accumulated (fst (handleMPESACallback ?w p)) (campaignId c1)
          = Some (js_add (js_add (currentAmount g1) (amount c1)) (amount c1))"
    by (auto simp: accumulated_def)
next
  assume a: "processWebhook q = Inr wr \<and> event wr = JStr ''charge.success'' \<and> wh_success wr
      \<and> findOne_transaction w (reference wr) = Inr (Some t2)
      \<and> findById_contribution (contributions w) (contributionId t2) = Some c2
      \<and> findById_campaign (campaigns w) (campaignId c2) = Some g2
      \<and> js_ge (currentAmount g2) (Fin 0) \<and> js_ge (amount c2) (Fin 0)"
  then have p: "processWebhook q = Inr wr" and ev: "event wr = JStr ''charge.success''"
    and s: "wh_success wr"
    and t: "findOne_transaction w (reference wr) = Inr (Some t2)"
    and c: "findById_contribution (contributions w) (contributionId t2) = Some c2"
    and g: "findById_campaign (campaigns w) (campaignId c2) = Some g2"
    and n: "js_ge (currentAmount g2) (Fin 0)" "js_ge (amount c2) (Fin 0)"
    by simp_all
  have v1: "js_ge (js_add (currentAmount g2) (amount c2)) (Fin 0)"
    using n by (rule js_add_nonneg)
  have v2: "js_ge (js_add (js_add (currentAmount g2) (amount c2)) (amount c2)) (Fin 0)"
    using v1 n(2) by (rule js_add_nonneg)
  let ?w = "fst (handlePaystackWebhook w q)"
  from webhook_success_step [OF p ev s t c g v1]
  obtain t' c' g' where
    t': "findOne_transaction ?w (reference wr) = Inr (Some t')"
    and c': "findById_contribution (contributions ?w) (contributionId t') = Some c'"
    and g': "findById_campaign (campaigns ?w) (campaignId c') = Some g'"
    and e: "campaignId c' = campaignId c2" "amount c' = amount c2"
           "currentAmount g' = js_add (currentAmount g2) (amount c2)"
    by auto
  from g' e show "accumulated ?w (campaignId c2) = Some (js_add (currentAmount g2) (amount c2))"
    by (simp add: accumulated_def)
  have v': "js_ge (js_add (currentAmount g') (amount c')) (Fin 0)"
    using v2 e by simp
  from webhook_success_step [OF p ev s t' c' g' v'] e
  show "accumulated (fst (handlePaystackWebhook ?w q)) (campaignId c2)
          = Some (js_add (js_add (currentAmount g2) (amount c2)) (amount c2))"
    by (auto simp: accumulated_def)
next
  assume a: "vr_status v = VSuccess
      \<and> findOne_transaction w (JStr r) = Inr (Some t3)
      \<and> findById_contribution (contributions w) (contributionId t3) = Some c3
      \<and> findById_campaign (campaigns w) (campaignId c3) = Some g3
      \<and> js_ge (currentAmount g3) (Fin 0) \<and> js_ge (amount c3) (Fin 0)"
  then have s: "vr_status v = VSuccess"
    and t: "findOne_transaction w (JStr r) = Inr (Some t3)"
    and c: "findById_contribution (contributions w) (contributionId t3) = Some c3"
    and g: "findById_campaign (campaigns w) (campaignId c3) = Some g3"
    and n: "js_ge (currentAmount g3) (Fin 0)" "js_ge (amount c3) (Fin 0)"
    by simp_all
  have v1: "js_ge (js_add (currentAmount g3) (amount c3)) (Fin 0)"
    using n by (rule js_add_nonneg)
  have v2: "js_ge (js_add (js_add (currentAmount g3) (amount c3)) (amount c3)) (Fin 0)"
    using v1 n(2) by (rule js_add_nonneg)
  let ?w = "fst (verifyPaystackPayment w r (Inr v))"
  from verify_success_step [OF s t c g v1]
  obtain t' c' g' where
    t': "findOne_transaction ?w (JStr r) = Inr (Some t')"
    and c': "findById_contribution (contributions ?w) (contributionId t') = Some c'"
    and g': "findById_campaign (campaigns ?w) (campaignId c') = Some g'"
    and e: "campaignId c' = campaignId c3" "amount c' = amount c3"
           "currentAmount g' = js_add (currentAmount g3) (amount c3)"
    by auto
  from g' e show "accumulated ?w (campaignId c3) = Some (js_add (currentAmount g3) (amount c3))"
    by (simp add: accumulated_def)
  have v': "js_ge (js_add (currentAmount g') (amount c')) (Fin 0)"
    using v2 e by simp
  from verify_success_step [OF s t' c' g' v'] e
  show "accumulated (fst (verifyPaystackPayment ?w r (Inr v))) (campaignId c3)
          = Some (js_add (js_add (currentAmount g3) (amount c3)) (amount c3))"
    by (auto simp: accumulated_def)
qed

theorem every_successful_call_credits_witness:
  "accumulated world0 5 = Some (Fin 0)
   \<and> storable world0 (JStr ''NLJ7RT61SV'')
   \<and> accumulated (fst (handleMPESACallback world0 (stkPaid ''ws_CO_1''))) 5 = Some (Fin 1000)
   \<and> accumulated (fst (handleMPESACallback (fst (handleMPESACallback world0 (stkPaid ''ws_CO_1'')))
                         (stkPaid ''ws_CO_1''))) 5 = Some (Fin 2000)
   \<and> accumulated (fst (handlePaystackWebhook world0 (chargeSuccess ''ps_ref_1'' ''success''))) 5
       = Some (Fin 250)
   \<and> accumulated (fst (handlePaystackWebhook
                         (fst (handlePaystackWebhook world0 (chargeSuccess ''ps_ref_1'' ''success'')))
                         (chargeSuccess ''ps_ref_1'' ''success''))) 5 = Some (Fin 500)
   \<and> accumulated (fst (verifyPaystackPayment world0 ''ps_ref_1'' (Inr (verification0 VSuccess)))) 5
       = Some (Fin 250)
   \<and> accumulated (fst (verifyPaystackPayment
                         (fst (verifyPaystackPayment world0 ''ps_ref_1'' (Inr (verification0 VSuccess))))
                         ''ps_ref_1'' (Inr (verification0 VSuccess)))) 5 = Some (Fin 500)"
proof -
  have v: "vr_status (verification0 VSuccess) = VSuccess"
    by (simp add: verification0_def)
  have z: "accumulated world0 5 = Some (Fin 0)"
    by (simp add: accumulated_def world0_lookups ledger_fields)
  have s: "storable world0 (JStr ''NLJ7RT61SV'')"
    by (simp add: storable_def storeString_def)
  show ?thesis
    using every_successful_call_credits [where p = "stkPaid ''ws_CO_1''"
        and cr = "projr (processCallback (stkPaid ''ws_CO_1''))" and w = world0
        and ?t1.0 = transaction0 and ?c1.0 = contribution0 and ?g1.0 = campaign0
        and q = "chargeSuccess ''ps_ref_1'' ''success''"
        and wr = "projr (processWebhook (chargeSuccess ''ps_ref_1'' ''success''))"
        and ?t2.0 = transaction1 and ?c2.0 = contribution1 and ?g2.0 = campaign0
        and v = "verification0 VSuccess" and r = "''ps_ref_1''"
        and ?t3.0 = transaction1 and ?c3.0 = contribution1 and ?g3.0 = campaign0]
    by (simp add: stkPaid_parsed chargeSuccess_parsed world0_lookups ledger_fields v z s
        js_ge_def example_fl)
qed

section \<open>Completion of a campaign\<close>

lemma count_after_replace:
  assumes "distinct (map f xs)" and "x \<in> set xs" and "f x' = f x" and "\<not> P x" and "P x'"
  shows "length (filter P (map (\<lambda>y. if f y = f x' then x' else y) xs)) = Suc (length (filter P xs))"
  using assms(1,2)
proof (induction xs)
  case Nil
  then show ?case by simp
next
  case (Cons a xs)
  show ?case
  proof (cases "a = x")
    case True
    with Cons.prems have "f x \<notin> f ` set xs"
      by simp
    then have "\<forall>y\<in>set xs. f y \<noteq> f x"
      by (metis imageI)
    with assms(3) have "map (\<lambda>y. if f y = f x' then x' else y) xs = xs"
      by (simp add: map_idI)
    with True assms(3,4,5) show ?thesis
      by simp
  next
    case False
    with Cons.prems have m: "x \<in> set xs" and "f a \<noteq> f x" and "distinct (map f xs)"
      by auto
    with Cons.IH assms(3) show ?thesis
      by simp
  qed
qed

lemma countDocuments_save:
  assumes "distinct (map contribution_id cs)" and "findById_contribution cs i = Some c"
    and "paymentStatus c \<noteq> PaymentSuccess" and "paymentStatus c' = PaymentSuccess"
    and "contribution_id c' = contribution_id c" and "campaignId c' = campaignId c"
  shows "countDocuments (save_contribution c' cs) (campaignId c) =
           Suc (countDocuments cs (campaignId c))"
  unfolding countDocuments_def save_contribution_def
  by (rule count_after_replace [OF assms(1) findById_contribution_mem [OF assms(2)]])
    (simp_all add: assms)

lemma donorName_saved:
  "donorName us (c\<lparr>paymentStatus := s, mpesaReceiptNumber := x\<rparr>) = donorName us c"
  "donorName us (c\<lparr>paymentStatus := s\<rparr>) = donorName us c"
  "donorName us (c\<lparr>paymentStatus := s, transactionId := y\<rparr>) = donorName us c"
  by (simp_all add: donorName_def split: option.splits)

text \<open>
  The state in which the crediting block of the M-Pesa callback runs, and the state it
  leaves, when the receipt number can be stored and the campaign's save accepts the
  credited total.
\<close>

lemma mpesa_credited:
  assumes p: "processCallback p = Inr cr" and s: "success cr"
    and t: "findOne_transaction w (checkoutRequestID cr) = Inr (Some t)"
    and c: "findById_contribution (contributions w) (contributionId t) = Some c"
    and g: "findById_campaign (campaigns w) (campaignId c) = Some g"
    and st: "truthy (cb_mpesaReceiptNumber cr) \<longrightarrow> storable w (cb_mpesaReceiptNumber cr)"
    and v: "js_ge (js_add (currentAmount g) (amount c)) (Fin 0)"
  shows "\<exists>receipt.
           creditCampaign
             (w\<lparr> console := console w @ [ConsoleLog ''MPESA Callback received:''],
                 transactions :=
                   save_transaction (t\<lparr>status := TxSuccess, callbackData := CallbackBody p\<rparr>)
                     (transactions w),
                 contributions :=
                   save_contribution
                     (c\<lparr>paymentStatus := PaymentSuccess, mpesaReceiptNumber := receipt\<rparr>)
                     (contributions w) \<rparr>)
             (c\<lparr>paymentStatus := PaymentSuccess, mpesaReceiptNumber := receipt\<rparr>)
             ''mpesa'' ''Campaign updated:'' =
           Inr (fst (handleMPESACallback w p))
         \<and> snd (handleMPESACallback w p) =
             \<lparr> http_status = 200, resp_body = ResultBody 0 ''Accepted'' \<rparr>"
proof -
  from st obtain receipt where
    receipt: "(if truthy (cb_mpesaReceiptNumber cr) then storeString w (cb_mpesaReceiptNumber cr)
               else Inr (mpesaReceiptNumber c)) = Inr receipt"
  proof (cases "truthy (cb_mpesaReceiptNumber cr)")
    case True
    with st obtain x where "storeString w (cb_mpesaReceiptNumber cr) = Inr x"
      by (cases "storeString w (cb_mpesaReceiptNumber cr)") (auto simp: storable_def)
    with True that show ?thesis
      by simp
  next
    case False
    with that show ?thesis
      by simp
  qed
  let ?c = "c\<lparr>paymentStatus := PaymentSuccess, mpesaReceiptNumber := receipt\<rparr>"
  let ?w = "w\<lparr> console := console w @ [ConsoleLog ''MPESA Callback received:''],
               transactions :=
                 save_transaction (t\<lparr>status := TxSuccess, callbackData := CallbackBody p\<rparr>)
                   (transactions w),
               contributions := save_contribution ?c (contributions w) \<rparr>"
  have "findById_campaign (campaigns ?w) (campaignId ?c) = Some g"
    using g by simp
  from creditCampaign_valid [OF this, of "''mpesa''" "''Campaign updated:''"] v
  obtain w3 where r: "creditCampaign ?w ?c ''mpesa'' ''Campaign updated:'' = Inr w3"
    by auto
  have "handleMPESACallback w p =
          (w3, \<lparr> http_status = 200, resp_body = ResultBody 0 ''Accepted'' \<rparr>)"
    using mpesa_success [OF p s t c receipt] r by (simp add: Let_def)
  with r show ?thesis
    by (intro exI [of _ receipt]) simp
qed

lemma webhook_credited:
  assumes p: "processWebhook p = Inr wr" and ev: "event wr = JStr ''charge.success''"
    and s: "wh_success wr"
    and t: "findOne_transaction w (reference wr) = Inr (Some t)"
    and c: "findById_contribution (contributions w) (contributionId t) = Some c"
    and g: "findById_campaign (campaigns w) (campaignId c) = Some g"
    and v: "js_ge (js_add (currentAmount g) (amount c)) (Fin 0)"
  shows "creditCampaign
           (w\<lparr> console := console w @ [ConsoleLog ''Paystack Webhook received:''],
               transactions :=
                 save_transaction (t\<lparr>status := TxSuccess, callbackData := CallbackBody p\<rparr>)
                   (transactions w),
               contributions :=
                 save_contribution (c\<lparr>paymentStatus := PaymentSuccess\<rparr>) (contributions w) \<rparr>)
           (c\<lparr>paymentStatus := PaymentSuccess\<rparr>) ''card'' ''Campaign updated via webhook:'' =
         Inr (fst (handlePaystackWebhook w p))"
proof -
  let ?c = "c\<lparr>paymentStatus := PaymentSuccess\<rparr>"
  let ?w = "w\<lparr> console := console w @ [ConsoleLog ''Paystack Webhook received:''],
               transactions :=
                 save_transaction (t\<lparr>status := TxSuccess, callbackData := CallbackBody p\<rparr>)
                   (transactions w),
               contributions := save_contribution ?c (contributions w) \<rparr>"
  have "findById_campaign (campaigns ?w) (campaignId ?c) = Some g"
    using g by simp
  from creditCampaign_valid [OF this, of "''card''" "''Campaign updated via webhook:''"] v
  obtain w3 where r: "creditCampaign ?w ?c ''card'' ''Campaign updated via webhook:'' = Inr w3"
    by auto
  then show ?thesis
    using webhook_success [OF p ev s t c] by (simp add: Let_def)
qed

lemma verify_credited:
  assumes s: "vr_status v = VSuccess"
    and t: "findOne_transaction w (JStr r) = Inr (Some t)"
    and c: "findById_contribution (contributions w) (contributionId t) = Some c"
    and g: "findById_campaign (campaigns w) (campaignId c) = Some g"
    and v: "js_ge (js_add (currentAmount g) (amount c)) (Fin 0)"
  shows "creditCampaign
           (w\<lparr> transactions :=
                 save_transaction (t\<lparr>status := TxSuccess, callbackData := Verification v\<rparr>)
                   (transactions w),
               contributions :=
                 save_contribution
                   (c\<lparr>paymentStatus := PaymentSuccess,
                      transactionId := Some (toString (vr_id v))\<rparr>) (contributions w) \<rparr>)
           (c\<lparr>paymentStatus := PaymentSuccess, transactionId := Some (toString (vr_id v))\<rparr>)
           ''card'' ''Campaign updated:'' =
         Inr (fst (verifyPaystackPayment w r (Inr v)))"
proof -
  let ?c = "c\<lparr>paymentStatus := PaymentSuccess, transactionId := Some (toString (vr_id v))\<rparr>"
  let ?w = "w\<lparr> transactions :=
                 save_transaction (t\<lparr>status := TxSuccess, callbackData := Verification v\<rparr>)
                   (transactions w),
               contributions := save_contribution ?c (contributions w) \<rparr>"
  have "findById_campaign (campaigns ?w) (campaignId ?c) = Some g"
    using g by simp
  from creditCampaign_valid [OF this, of "''card''" "''Campaign updated:''"] v
  obtain w3 where r: "creditCampaign ?w ?c ''card'' ''Campaign updated:'' = Inr w3"
    by auto
  then show ?thesis
    using verify_success [OF s t c] by (simp add: Let_def)
qed

text \<open>
  C4. When a successful M-Pesa callback is reconciled for a pending contribution of a
  campaign that is not yet completed, the receipt number can be stored and the
  campaign's save accepts the credited total, the amount is credited first and the
  completion check is made on the credited total: if the goal is reached now, the
  campaign becomes completed and a completion event follows the two contribution
  events, counting the successful contributions including this one. So a campaign with
  goal 1000 and accumulated 0 that receives 1000 ends with 1000, completed, and a
  completion event with count 1, although before the credit it was short of its goal.
  Amounts are doubles: the credited total is the rounded sum, and the test is false
  when it is NaN.
\<close>

theorem completion_checked_after_credit:
  assumes p: "processCallback p = Inr cr" and s: "success cr"
    and t: "findOne_transaction w (checkoutRequestID cr) = Inr (Some t)"
    and c: "findById_contribution (contributions w) (contributionId t) = Some c"
    and g: "findById_campaign (campaigns w) (campaignId c) = Some g"
    and st: "truthy (cb_mpesaReceiptNumber cr) \<longrightarrow> storable w (cb_mpesaReceiptNumber cr)"
    and v: "js_ge (js_add (currentAmount g) (amount c)) (Fin 0)"
    and pending: "paymentStatus c = PaymentPending"
    and running: "campaign_status g \<noteq> Completed"
    and d: "distinct (map contribution_id (contributions w))"
    and io: "io w"
  shows "snd (handleMPESACallback w p) =
           \<lparr> http_status = 200, resp_body = ResultBody 0 ''Accepted'' \<rparr>
       \<and> findById_campaign (campaigns (fst (handleMPESACallback w p))) (campaignId c) =
           Some (g\<lparr> currentAmount := js_add (currentAmount g) (amount c),
                    campaign_status :=
                      (if js_ge (js_add (currentAmount g) (amount c)) (goalAmount g)
                       then Completed else campaign_status g) \<rparr>)
       \<and> emitted (fst (handleMPESACallback w p)) =
           emitted w @
           [CampaignUpdated (campaignId c) (js_add (currentAmount g) (amount c))
              (orZero (completionPercentage
                 (g\<lparr>currentAmount := js_add (currentAmount g) (amount c)\<rparr>)))
              \<lparr> cs_amount = amount c, cs_isAnonymous = isAnonymous c,
                cs_donorName = donorName (users w) c \<rparr>,
            NewContribution (campaignId c) (amount c) (isAnonymous c) (donorName (users w) c)
              ''mpesa''] @
           (if js_ge (js_add (currentAmount g) (amount c)) (goalAmount g)
            then [CampaignCompleted (campaignId c) (goalAmount g)
                    (js_add (currentAmount g) (amount c))
                    (Suc (countDocuments (contributions w) (campaignId c)))]
            else [])"
proof -
  from mpesa_credited [OF p s t c g st v] obtain receipt where
    r: "creditCampaign
          (w\<lparr> console := console w @ [ConsoleLog ''MPESA Callback received:''],
              transactions :=
                save_transaction (t\<lparr>status := TxSuccess, callbackData := CallbackBody p\<rparr>)
                  (transactions w),
              contributions :=
                save_contribution
                  (c\<lparr>paymentStatus := PaymentSuccess, mpesaReceiptNumber := receipt\<rparr>)
                  (contributions w) \<rparr>)
          (c\<lparr>paymentStatus := PaymentSuccess, mpesaReceiptNumber := receipt\<rparr>)
          ''mpesa'' ''Campaign updated:'' =
        Inr (fst (handleMPESACallback w p))"
    and a: "snd (handleMPESACallback w p) =
              \<lparr> http_status = 200, resp_body = ResultBody 0 ''Accepted'' \<rparr>"
    by blast
  let ?c = "c\<lparr>paymentStatus := PaymentSuccess, mpesaReceiptNumber := receipt\<rparr>"
  let ?w = "w\<lparr> console := console w @ [ConsoleLog ''MPESA Callback received:''],
               transactions :=
                 save_transaction (t\<lparr>status := TxSuccess, callbackData := CallbackBody p\<rparr>)
                   (transactions w),
               contributions := save_contribution ?c (contributions w) \<rparr>"
  have g': "findById_campaign (campaigns ?w) (campaignId ?c) = Some g"
    using g by simp
  have io': "io ?w"
    using io by simp
  have i: "campaign_id g = campaignId c"
    using g by (rule findById_campaign_id)
  have n: "countDocuments (contributions ?w) (campaignId c) =
             Suc (countDocuments (contributions w) (campaignId c))"
    using countDocuments_save [OF d c, of ?c] pending by simp
  have "findById_campaign (campaigns (fst (handleMPESACallback w p))) (campaignId c) =
           Some (g\<lparr> currentAmount := js_add (currentAmount g) (amount c),
                    campaign_status :=
                      (if js_ge (js_add (currentAmount g) (amount c)) (goalAmount g)
                       then Completed else campaign_status g) \<rparr>)"
    using creditCampaign_lookup [OF g' r] by simp
  moreover have "emitted (fst (handleMPESACallback w p)) =
           emitted w @
           [CampaignUpdated (campaignId c) (js_add (currentAmount g) (amount c))
              (orZero (completionPercentage
                 (g\<lparr>currentAmount := js_add (currentAmount g) (amount c)\<rparr>)))
              \<lparr> cs_amount = amount c, cs_isAnonymous = isAnonymous c,
                cs_donorName = donorName (users w) c \<rparr>,
            NewContribution (campaignId c) (amount c) (isAnonymous c) (donorName (users w) c)
              ''mpesa''] @
           (if js_ge (js_add (currentAmount g) (amount c)) (goalAmount g)
            then [CampaignCompleted (campaignId c) (goalAmount g)
                    (js_add (currentAmount g) (amount c))
                    (Suc (countDocuments (contributions w) (campaignId c)))]
            else [])"
    using creditCampaign_emitted [OF g' io' r] running n i
    by (simp add: donorName_saved)
  ultimately show ?thesis
    using a by simp
qed

theorem completion_checked_after_credit_witness:
  "goalAmount campaign0 = Fin 1000 \<and> currentAmount campaign0 = Fin 0
   \<and> \<not> js_ge (currentAmount campaign0) (goalAmount campaign0)
   \<and> amount contribution0 = Fin 1000 \<and> paymentStatus contribution0 = PaymentPending
   \<and> findById_campaign (campaigns (fst (handleMPESACallback world0 (stkPaid ''ws_CO_1'')))) 5 =
       Some (campaign0\<lparr>currentAmount := Fin 1000, campaign_status := Completed\<rparr>)
   \<and> emitted (fst (handleMPESACallback world0 (stkPaid ''ws_CO_1''))) =
       [CampaignUpdated 5 (Fin 1000) (Fin 100)
          \<lparr> cs_amount = Fin 1000, cs_isAnonymous = True, cs_donorName = None \<rparr>,
        NewContribution 5 (Fin 1000) True None ''mpesa'',
        CampaignCompleted 5 (Fin 1000) (Fin 1000) 1]"
proof -
  let ?cr = "projr (processCallback (stkPaid ''ws_CO_1''))"
  have p: "processCallback (stkPaid ''ws_CO_1'') = Inr ?cr"
    by (simp add: stkPaid_parsed)
  have s: "success ?cr"
    by (simp add: stkPaid_parsed)
  have t: "findOne_transaction world0 (checkoutRequestID ?cr) = Inr (Some transaction0)"
    by (simp add: stkPaid_parsed world0_lookups)
  have c: "findById_contribution (contributions world0) (contributionId transaction0)
             = Some contribution0"
    by (simp add: ledger_fields world0_lookups)
  have g: "findById_campaign (campaigns world0) (campaignId contribution0) = Some campaign0"
    by (simp add: ledger_fields world0_lookups)
  have st: "truthy (cb_mpesaReceiptNumber ?cr) \<longrightarrow> storable world0 (cb_mpesaReceiptNumber ?cr)"
    by (simp add: stkPaid_parsed storable_def storeString_def)
  have v: "js_ge (js_add (currentAmount campaign0) (amount contribution0)) (Fin 0)"
    by (simp add: ledger_fields example_fl js_ge_def)
  have pending: "paymentStatus contribution0 = PaymentPending"
    by (simp add: contribution0_def)
  have running: "campaign_status campaign0 \<noteq> Completed"
    by (simp add: campaign0_def)
  have d: "distinct (map contribution_id (contributions world0))"
    by (simp add: ledger_defs)
  have io: "io world0"
    by (simp add: world0_def)
  have n: "countDocuments (contributions world0) 5 = 0"
    by (simp add: countDocuments_def ledger_defs)
  have dn: "donorName (users world0) contribution0 = None"
    by (simp add: donorName_def contribution0_def)
  have pct: "orZero (completionPercentage (campaign0\<lparr>currentAmount := Fin 1000\<rparr>)) = Fin 100"
    by (simp add: example_percentages orZero_def)
  have e: "emitted world0 = []" "isAnonymous contribution0"
    by (simp_all add: ledger_defs)
  show ?thesis
    using completion_checked_after_credit [OF p s t c g st v pending running d io]
    by (simp add: ledger_fields pending n dn pct e example_fl js_ge_def)
qed

section \<open>The donor name in the events\<close>

lemma donorName_displayName: "donorName us c = displayName us c"
  by (simp add: donorName_def displayName_def split: option.splits)

lemma creditCampaign_events:
  assumes g: "findById_campaign (campaigns w2) (campaignId c') = Some g" and io: "io w2"
    and e: "emitted w2 = emitted w" and u: "users w2 = users w"
    and c': "amount c' = amount c" "isAnonymous c' = isAnonymous c"
            "campaignId c' = campaignId c"
            "donorName (users w) c' = donorName (users w) c"
    and r: "creditCampaign w2 c' m l = Inr w3"
  shows "\<exists>pct rest.
           emitted w3 =
             emitted w @
             [CampaignUpdated (campaignId c) (js_add (currentAmount g) (amount c)) pct
                \<lparr> cs_amount = amount c, cs_isAnonymous = isAnonymous c,
                  cs_donorName = displayName (users w) c \<rparr>,
              NewContribution (campaignId c) (amount c) (isAnonymous c)
                (displayName (users w) c) m] @ rest
         \<and> list_all is_CampaignCompleted rest"
proof -
  have i: "campaign_id g = campaignId c"
    using findById_campaign_id [OF g] c'(3) by simp
  show ?thesis
    using creditCampaign_emitted [OF g io r] e u c' i
    by (simp add: donorName_displayName [symmetric])
qed

text \<open>
  C8. When a successful reconciliation credits a campaign and the socket service is
  running, the handler emits a campaign-updated event and then a new-contribution event,
  both carrying the donor name: none for an anonymous contribution (so none for an
  anonymous guest contribution); otherwise the linked user's name when the contribution
  has a user reference, else the guest name. Only a completion event may follow. The
  campaign is credited when no save before the events throws: the receipt number of an
  M-Pesa callback can be stored as a string, and the campaign's save accepts the
  credited total.
\<close>

theorem donor_name_in_events:
  "(processCallback p = Inr cr \<and> success cr
      \<and> findOne_transaction w (checkoutRequestID cr) = Inr (Some t1)
      \<and> findById_contribution (contributions w) (contributionId t1) = Some c1
      \<and> findById_campaign (campaigns w) (campaignId c1) = Some g1 \<and> io w
      \<and> (truthy (cb_mpesaReceiptNumber cr) \<longrightarrow> storable w (cb_mpesaReceiptNumber cr))
      \<and> js_ge (js_add (currentAmount g1) (amount c1)) (Fin 0)
    \<longrightarrow> (\<exists>pct rest.
           emitted (fst (handleMPESACallback w p)) =
             emitted w @
             [CampaignUpdated (campaignId c1) (js_add (currentAmount g1) (amount c1)) pct
                \<lparr> cs_amount = amount c1, cs_isAnonymous = isAnonymous c1,
                  cs_donorName = displayName (users w) c1 \<rparr>,
              NewContribution (campaignId c1) (amount c1) (isAnonymous c1)
                (displayName (users w) c1) ''mpesa''] @ rest
         \<and> list_all is_CampaignCompleted rest))
   \<and> (processWebhook q = Inr wr \<and> event wr = JStr ''charge.success'' \<and> wh_success wr
      \<and> findOne_transaction w (reference wr) = Inr (Some t2)
      \<and> findById_contribution (contributions w) (contributionId t2) = Some c2
      \<and> findById_campaign (campaigns w) (campaignId c2) = Some g2 \<and> io w
      \<and> js_ge (js_add (currentAmount g2) (amount c2)) (Fin 0)
    \<longrightarrow> (\<exists>pct rest.
           emitted (fst (handlePaystackWebhook w q)) =
             emitted w @
             [CampaignUpdated (campaignId c2) (js_add (currentAmount g2) (amount c2)) pct
                \<lparr> cs_amount = amount c2, cs_isAnonymous = isAnonymous c2,
                  cs_donorName = displayName (users w) c2 \<rparr>,
              NewContribution (campaignId c2) (amount c2) (isAnonymous c2)
                (displayName (users w) c2) ''card''] @ rest
         \<and> list_all is_CampaignCompleted rest))
   \<and> (vr_status v = VSuccess
      \<and> findOne_transaction w (JStr r) = Inr (Some t3)
      \<and> findById_contribution (contributions w) (contributionId t3) = Some c3
      \<and> findById_campaign (campaigns w) (campaignId c3) = Some g3 \<and> io w
      \<and> js_ge (js_add (currentAmount g3) (amount c3)) (Fin 0)
    \<longrightarrow> (\<exists>pct rest.
           emitted (fst (verifyPaystackPayment w r (Inr v))) =
             emitted w @
             [CampaignUpdated (campaignId c3) (js_add (currentAmount g3) (amount c3)) pct
                \<lparr> cs_amount = amount c3, cs_isAnonymous = isAnonymous c3,
                  cs_donorName = displayName (users w) c3 \<rparr>,
              NewContribution (campaignId c3) (amount c3) (isAnonymous c3)
                (displayName (users w) c3) ''card''] @ rest
         \<and> list_all is_CampaignCompleted rest))"
proof (intro conjI impI)
  assume a: "processCallback p = Inr cr \<and> success cr
      \<and> findOne_transaction w (checkoutRequestID cr) = Inr (Some t1)
      \<and> findById_contribution (contributions w) (contributionId t1) = Some c1
      \<and> findById_campaign (campaigns w) (campaignId c1) = Some g1 \<and> io w
      \<and> (truthy (cb_mpesaReceiptNumber cr) \<longrightarrow> storable w (cb_mpesaReceiptNumber cr))
      \<and> js_ge (js_add (currentAmount g1) (amount c1)) (Fin 0)"
  then have p: "processCallback p = Inr cr" and s: "success cr"
    and t: "findOne_transaction w (checkoutRequestID cr) = Inr (Some t1)"
    and c: "findById_contribution (contributions w) (contributionId t1) = Some c1"
    and g1: "findById_campaign (campaigns w) (campaignId c1) = Some g1"
    and st: "truthy (cb_mpesaReceiptNumber cr) \<longrightarrow> storable w (cb_mpesaReceiptNumber cr)"
    and v: "js_ge (js_add (currentAmount g1) (amount c1)) (Fin 0)"
    by simp_all
  from mpesa_credited [OF p s t c g1 st v] obtain receipt where
    r: "creditCampaign
          (w\<lparr> console := console w @ [ConsoleLog ''MPESA Callback received:''],
              transactions :=
                save_transaction (t1\<lparr>status := TxSuccess, callbackData := CallbackBody p\<rparr>)
                  (transactions w),
              contributions :=
                save_contribution
                  (c1\<lparr>paymentStatus := PaymentSuccess, mpesaReceiptNumber := receipt\<rparr>)
                  (contributions w) \<rparr>)
          (c1\<lparr>paymentStatus := PaymentSuccess, mpesaReceiptNumber := receipt\<rparr>)
          ''mpesa'' ''Campaign updated:'' =
        Inr (fst (handleMPESACallback w p))"
    by blast
  let ?c = "c1\<lparr>paymentStatus := PaymentSuccess, mpesaReceiptNumber := receipt\<rparr>"
  let ?w = "w\<lparr> console := console w @ [ConsoleLog ''MPESA Callback received:''],
               transactions :=
                 save_transaction (t1\<lparr>status := TxSuccess, callbackData := CallbackBody p\<rparr>)
                   (transactions w),
               contributions := save_contribution ?c (contributions w) \<rparr>"
  from a have g: "findById_campaign (campaigns ?w) (campaignId ?c) = Some g1"
    and io: "io ?w"
    by simp_all
  have e: "emitted ?w = emitted w" "users ?w = users w"
    by simp_all
  have k: "amount ?c = amount c1" "isAnonymous ?c = isAnonymous c1"
    "campaignId ?c = campaignId c1" "donorName (users w) ?c = donorName (users w) c1"
    by (simp_all add: donorName_saved)
  show "\<exists>pct rest.
           emitted (fst (handleMPESACallback w p)) =
             emitted w @
             [CampaignUpdated (campaignId c1) (js_add (currentAmount g1) (amount c1)) pct
                \<lparr> cs_amount = amount c1, cs_isAnonymous = isAnonymous c1,
                  cs_donorName = displayName (users w) c1 \<rparr>,
              NewContribution (campaignId c1) (amount c1) (isAnonymous c1)
                (displayName (users w) c1) ''mpesa''] @ rest
         \<and> list_all is_CampaignCompleted rest"
    by (rule creditCampaign_events [OF g io e k r])
next
  assume a: "processWebhook q = Inr wr \<and> event wr = JStr ''charge.success'' \<and> wh_success wr
      \<and> findOne_transaction w (reference wr) = Inr (Some t2)
      \<and> findById_contribution (contributions w) (contributionId t2) = Some c2
      \<and> findById_campaign (campaigns w) (campaignId c2) = Some g2 \<and> io w
      \<and> js_ge (js_add (currentAmount g2) (amount c2)) (Fin 0)"
  then have p: "processWebhook q = Inr wr" and ev: "event wr = JStr ''charge.success''"
    and s: "wh_success wr"
    and t: "findOne_transaction w (reference wr) = Inr (Some t2)"
    and c: "findById_contribution (contributions w) (contributionId t2) = Some c2"
    and g2: "findById_campaign (campaigns w) (campaignId c2) = Some g2"
    and v: "js_ge (js_add (currentAmount g2) (amount c2)) (Fin 0)"
    by simp_all
  let ?c = "c2\<lparr>paymentStatus := PaymentSuccess\<rparr>"
  let ?w = "w\<lparr> console := console w @ [ConsoleLog ''Paystack Webhook received:''],
               transactions :=
                 save_transaction (t2\<lparr>status := TxSuccess, callbackData := CallbackBody q\<rparr>)
                   (transactions w),
               contributions := save_contribution ?c (contributions w) \<rparr>"
  note r = webhook_credited [OF p ev s t c g2 v]
  from a have g: "findById_campaign (campaigns ?w) (campaignId ?c) = Some g2"
    and io: "io ?w"
    by simp_all
  have e: "emitted ?w = emitted w" "users ?w = users w"
    by simp_all
  have k: "amount ?c = amount c2" "isAnonymous ?c = isAnonymous c2"
    "campaignId ?c = campaignId c2" "donorName (users w) ?c = donorName (users w) c2"
    by (simp_all add: donorName_saved)
  show "\<exists>pct rest.
           emitted (fst (handlePaystackWebhook w q)) =
             emitted w @
             [CampaignUpdated (campaignId c2) (js_add (currentAmount g2) (amount c2)) pct
                \<lparr> cs_amount = amount c2, cs_isAnonymous = isAnonymous c2,
                  cs_donorName = displayName (users w) c2 \<rparr>,
              NewContribution (campaignId c2) (amount c2) (isAnonymous c2)
                (displayName (users w) c2) ''card''] @ rest
         \<and> list_all is_CampaignCompleted rest"
    by (rule creditCampaign_events [OF g io e k r])
next
  assume a: "vr_status v = VSuccess
      \<and> findOne_transaction w (JStr r) = Inr (Some t3)
      \<and> findById_contribution (contributions w) (contributionId t3) = Some c3
      \<and> findById_campaign (campaigns w) (campaignId c3) = Some g3 \<and> io w
      \<and> js_ge (js_add (currentAmount g3) (amount c3)) (Fin 0)"
  then have s: "vr_status v = VSuccess"
    and t: "findOne_transaction w (JStr r) = Inr (Some t3)"
    and c: "findById_contribution (contributions w) (contributionId t3) = Some c3"
    and g3: "findById_campaign (campaigns w) (campaignId c3) = Some g3"
    and v: "js_ge (js_add (currentAmount g3) (amount c3)) (Fin 0)"
    by simp_all
  let ?c = "c3\<lparr>paymentStatus := PaymentSuccess, transactionId := Some (toString (vr_id v))\<rparr>"
  let ?w = "w\<lparr> transactions :=
                 save_transaction (t3\<lparr>status := TxSuccess, callbackData := Verification v\<rparr>)
                   (transactions w),
               contributions := save_contribution ?c (contributions w) \<rparr>"
  note r = verify_credited [OF s t c g3 v]
  from a have g: "findById_campaign (campaigns ?w) (campaignId ?c) = Some g3"
    and io: "io ?w"
    by simp_all
  have e: "emitted ?w = emitted w" "users ?w = users w"
    by simp_all
  have k: "amount ?c = amount c3" "isAnonymous ?c = isAnonymous c3"
    "campaignId ?c = campaignId c3" "donorName (users w) ?c = donorName (users w) c3"
    by (simp_all add: donorName_saved)
  show "\<exists>pct rest.
           emitted (fst (verifyPaystackPayment w r (Inr v))) =
             emitted w @
             [CampaignUpdated (campaignId c3) (js_add (currentAmount g3) (amount c3)) pct
                \<lparr> cs_amount = amount c3, cs_isAnonymous = isAnonymous c3,
                  cs_donorName = displayName (users w) c3 \<rparr>,
              NewContribution (campaignId c3) (amount c3) (isAnonymous c3)
                (displayName (users w) c3) ''card''] @ rest
         \<and> list_all is_CampaignCompleted rest"
    by (rule creditCampaign_events [OF g io e k r])
qed

theorem donor_name_in_events_witness:
  "userId contribution0 = None \<and> isAnonymous contribution0
   \<and> userId contribution1 = Some 7 \<and> \<not> isAnonymous contribution1
   \<and> findById_user (users world0) 7 = Some user0 \<and> name user0 = ''Achieng''
   \<and> (\<exists>pct rest.
         emitted (fst (handleMPESACallback world0 (stkPaid ''ws_CO_1''))) =
           [CampaignUpdated 5 (Fin 1000) pct
              \<lparr> cs_amount = Fin 1000, cs_isAnonymous = True, cs_donorName = None \<rparr>,
            NewContribution 5 (Fin 1000) True None ''mpesa''] @ rest
       \<and> list_all is_CampaignCompleted rest)
   \<and> (\<exists>pct rest.
         emitted (fst (handlePaystackWebhook world0 (chargeSuccess ''ps_ref_1'' ''success''))) =
           [CampaignUpdated 5 (Fin 250) pct
              \<lparr> cs_amount = Fin 250, cs_isAnonymous = False, cs_donorName = Some ''Achieng'' \<rparr>,
            NewContribution 5 (Fin 250) False (Some ''Achieng'') ''card''] @ rest
       \<and> list_all is_CampaignCompleted rest)
   \<and> (\<exists>pct rest.
         emitted (fst (verifyPaystackPayment world0 ''ps_ref_1'' (Inr (verification0 VSuccess)))) =
           [CampaignUpdated 5 (Fin 250) pct
              \<lparr> cs_amount = Fin 250, cs_isAnonymous = False, cs_donorName = Some ''Achieng'' \<rparr>,
            NewContribution 5 (Fin 250) False (Some ''Achieng'') ''card''] @ rest
       \<and> list_all is_CampaignCompleted rest)"
proof -
  have v: "vr_status (verification0 VSuccess) = VSuccess"
    by (simp add: verification0_def)
  have u: "findById_user (users world0) 7 = Some user0" "name user0 = ''Achieng''"
    by (simp_all add: findById_user_def ledger_defs)
  have c: "userId contribution0 = None" "isAnonymous contribution0"
    "userId contribution1 = Some 7" "\<not> isAnonymous contribution1"
    by (simp_all add: ledger_defs)
  have n: "displayName (users world0) contribution0 = None"
    "displayName (users world0) contribution1 = Some ''Achieng''"
    by (simp_all add: displayName_def c u)
  have e: "emitted world0 = []" "io world0"
    by (simp_all add: world0_def)
  show ?thesis
    using donor_name_in_events [where p = "stkPaid ''ws_CO_1''"
        and cr = "projr (processCallback (stkPaid ''ws_CO_1''))" and w = world0
        and ?t1.0 = transaction0 and ?c1.0 = contribution0 and ?g1.0 = campaign0
        and q = "chargeSuccess ''ps_ref_1'' ''success''"
        and wr = "projr (processWebhook (chargeSuccess ''ps_ref_1'' ''success''))"
        and ?t2.0 = transaction1 and ?c2.0 = contribution1 and ?g2.0 = campaign0
        and v = "verification0 VSuccess" and r = "''ps_ref_1''"
        and ?t3.0 = transaction1 and ?c3.0 = contribution1 and ?g3.0 = campaign0]
    by (simp add: stkPaid_parsed chargeSuccess_parsed world0_lookups ledger_fields v u c n e
        storable_def storeString_def js_ge_def example_fl)
qed

section \<open>Rounding to a double\<close>












section \<open>Derived campaign figures\<close>







end
